theory Spec2Isabelle
  imports Complex_Main "HOL-Library.AList"
begin

section \<open>Air-quality station browser: the C++ core (mainwindow.cpp)\<close>

text \<open>
  The embedding follows \<^verbatim>\<open>mainwindow.h\<close> / \<^verbatim>\<open>mainwindow.cpp\<close>: the fields of
  \<^verbatim>\<open>MainWindow\<close> are a record, every slot is a function from the state before to the
  state after, and a finished \<^verbatim>\<open>QNetworkReply\<close> is a value: either the error with its
  \<^verbatim>\<open>errorString()\<close>, or the decoded body. Qt signals (\<^verbatim>\<open>emit ...Changed()\<close>) carry no data
  and are not part of the state. The coordinates and distances of the C++ side are read as
  real numbers.
\<close>

subsection \<open>Strings\<close>

text \<open>Strings are byte lists; the Polish letters of the status texts are their UTF-8 bytes.\<close>

definition Blad :: string where
  "Blad = [CHR ''B'', CHR 0xC5, CHR 0x82, CHR 0xC4, CHR 0x85, CHR ''d'']"

definition digit_char :: "nat \<Rightarrow> char" where
  "digit_char d = char_of (48 + d)"

function nat_digits :: "nat \<Rightarrow> string" where
  "nat_digits n = (if n < 10 then [digit_char n] else nat_digits (n div 10) @ [digit_char (n mod 10)])"
  by pat_completeness auto
termination
  by (relation "measure id") auto

declare nat_digits.simps [simp del]

text \<open>\<^verbatim>\<open>QString::number(int)\<close>: the decimal rendering, with a minus sign for negatives.\<close>

definition QString_number :: "int \<Rightarrow> string" where
  "QString_number i = (if i < 0 then CHR ''-'' # nat_digits (nat (- i)) else nat_digits (nat i))"

text \<open>Reading a digit string back, used only to show that the rendering is injective.\<close>

definition digits_val :: "string \<Rightarrow> nat" where
  "digits_val s = foldl (\<lambda>a c. 10 * a + (of_char c - 48)) 0 s"

subsection \<open>Data model\<close>

record Station =
  stationId :: int
  stationName :: string
  cityName :: string
  address :: string
  lat :: real
  lon :: real
  isSearched :: bool

text \<open>
  JavaScript numbers as they reach the QML side: a finite value, the two infinities, or NaN.
  The finite values that the program handles are binary64 values.
\<close>

datatype jsnum = Fin real | PInf | NInf | NaN

text \<open>One data point of a series: \<^verbatim>\<open>{date, value}\<close>; \<^verbatim>\<open>None\<close> is a JSON \<^verbatim>\<open>null\<close> value.\<close>

record sample =
  date :: string
  val :: "jsnum option"

text \<open>
  A value of the \<^verbatim>\<open>QVariantMap m_sensorData\<close>: the list of data points stored by
  \<^verbatim>\<open>onSensorDataReply\<close>, or the default-constructed (invalid) \<^verbatim>\<open>QVariant\<close> that the
  non-const \<^verbatim>\<open>operator[]\<close> inserts for a missing key.
\<close>

datatype qvariant = Invalid | QVList "sample list"

record sensorInfo =
  sensorId :: int
  paramName :: string

type_synonym QGeoCoordinate = "real \<times> real"

record MainWindow =
  m_mapCenter :: QGeoCoordinate
  m_status :: string
  m_stations :: "Station list"
  m_allStations :: "Station list"
  m_sensors :: "sensorInfo list"
  m_sensorData :: "string \<rightharpoonup> qvariant"

text \<open>A finished network reply: \<^verbatim>\<open>reply->error() != NoError\<close> with its error string, or the body.\<close>

datatype 'a QNetworkReply = Error string | NoError 'a

text \<open>
  Functions of the Qt library that the slots call and whose code is not part of the
  repository; they are parameters of the model.
\<close>

record qt_lib =
  toLower :: "string \<Rightarrow> string"
  simplified :: "string \<Rightarrow> string"
  toDouble :: "string \<Rightarrow> real"
  distanceTo :: "QGeoCoordinate \<Rightarrow> QGeoCoordinate \<Rightarrow> real"

text \<open>\<^verbatim>\<open>std::numeric_limits<double>::max()\<close>, also JavaScript's \<^verbatim>\<open>Number.MAX_VALUE\<close>.\<close>

definition DBL_MAX :: real where
  "DBL_MAX = (2 ^ 53 - 1) * 2 ^ 971"

subsection \<open>Decoded reply bodies\<close>

text \<open>Geocoding: an array of objects with string-encoded \<^verbatim>\<open>lat\<close> and \<^verbatim>\<open>lon\<close>.\<close>

record geo_result =
  geo_lat :: string
  geo_lon :: string

text \<open>Station list: the fields \<^verbatim>\<open>onStationsReply\<close> reads from each array element.\<close>

record station_json =
  js_id :: int
  js_stationName :: string
  js_city_name :: string
  js_addressStreet :: string
  js_gegrLat :: string
  js_gegrLon :: string

text \<open>Sensor list: \<^verbatim>\<open>id\<close> and \<^verbatim>\<open>param.paramName\<close> of each array element.\<close>

record sensor_json =
  js_sensor_id :: int
  js_paramName :: string

text \<open>Sensor data: the elements of \<^verbatim>\<open>values\<close>, each \<^verbatim>\<open>{date: string, value: number|null}\<close>.\<close>

record dataPoint =
  dp_date :: string
  dp_value :: "real option"

subsection \<open>Slots\<close>

definition updateStationSearchStatus :: "int \<Rightarrow> bool \<Rightarrow> MainWindow \<Rightarrow> MainWindow" where
  "updateStationSearchStatus sid b s =
     s\<lparr>m_allStations :=
         map (\<lambda>station. if stationId station = sid then station\<lparr>isSearched := b\<rparr> else station)
           (m_allStations s)\<rparr>"

definition removeSensorData :: "int \<Rightarrow> MainWindow \<Rightarrow> MainWindow" where
  "removeSensorData sid s = s\<lparr>m_sensorData := (m_sensorData s)(QString_number sid := None)\<rparr>"

definition setSensorData :: "(string \<rightharpoonup> qvariant) \<Rightarrow> MainWindow \<Rightarrow> MainWindow" where
  "setSensorData data s = (if m_sensorData s \<noteq> data then s\<lparr>m_sensorData := data\<rparr> else s)"

text \<open>\<^verbatim>\<open>onSensorDataReply\<close>: lines 398-426.\<close>

definition toSample :: "dataPoint \<Rightarrow> sample" where
  "toSample p = \<lparr>date = dp_date p, val = map_option Fin (dp_value p)\<rparr>"

definition onSensorDataReply :: "dataPoint list QNetworkReply \<Rightarrow> int \<Rightarrow> MainWindow \<Rightarrow> MainWindow" where
  "onSensorDataReply reply sid s =
     (case reply of
        Error e \<Rightarrow> s\<lparr>m_sensorData := (m_sensorData s)(QString_number sid := None)\<rparr>
      | NoError values \<Rightarrow>
          s\<lparr>m_sensorData := (m_sensorData s)(QString_number sid \<mapsto> QVList (map toSample values))\<rparr>)"

text \<open>\<^verbatim>\<open>onSensorsReply\<close>: lines 363-389.\<close>

definition onSensorsReply :: "sensor_json list QNetworkReply \<Rightarrow> MainWindow \<Rightarrow> MainWindow" where
  "onSensorsReply reply s =
     (case reply of
        Error e \<Rightarrow> s\<lparr>m_sensors := []\<rparr>
      | NoError sensors \<Rightarrow>
          s\<lparr>m_sensors :=
              map (\<lambda>obj. \<lparr>sensorId = js_sensor_id obj, paramName = js_paramName obj\<rparr>) sensors\<rparr>)"

text \<open>\<^verbatim>\<open>onStationsReply\<close>: lines 328-355.\<close>

definition onStationsReply :: "qt_lib \<Rightarrow> station_json list QNetworkReply \<Rightarrow> MainWindow \<Rightarrow> MainWindow" where
  "onStationsReply qt reply s =
     (case reply of
        Error e \<Rightarrow> s\<lparr>m_status := Blad @ '' pobierania stacji: '' @ e\<rparr>
      | NoError stations \<Rightarrow>
          s\<lparr>m_allStations :=
              map (\<lambda>obj. \<lparr>stationId = js_id obj, stationName = js_stationName obj,
                           cityName = js_city_name obj, address = js_addressStreet obj,
                           lat = toDouble qt (js_gegrLat obj), lon = toDouble qt (js_gegrLon obj),
                           isSearched = False\<rparr>) stations\<rparr>)"

text \<open>
  \<^verbatim>\<open>onGeocodeReply\<close>: lines 223-320. \<^verbatim>\<open>QGeoCoordinate(lat, lon)\<close> is the pair of its
  arguments. The first loop is the exact-city search of lines 258-274, the second the
  nearest-station search of lines 282-289; both run over \<^verbatim>\<open>m_allStations\<close>, whose elements
  change only in their \<^verbatim>\<open>isSearched\<close> flag while the loops run.
\<close>

fun exactMatches :: "qt_lib \<Rightarrow> string \<Rightarrow> Station list \<Rightarrow> MainWindow \<Rightarrow> MainWindow" where
  "exactMatches qt normalizedSearchedCity [] s = s"
| "exactMatches qt normalizedSearchedCity (station # rest) s =
     exactMatches qt normalizedSearchedCity rest
       (if simplified qt (toLower qt (cityName station)) = normalizedSearchedCity
        then updateStationSearchStatus (stationId station) True
               (s\<lparr>m_stations := m_stations s @ [station\<lparr>isSearched := True\<rparr>]\<rparr>)
        else s)"

fun closestLoop :: "qt_lib \<Rightarrow> QGeoCoordinate \<Rightarrow> Station list \<Rightarrow> Station option \<times> real
                    \<Rightarrow> Station option \<times> real" where
  "closestLoop qt cityCoord [] acc = acc"
| "closestLoop qt cityCoord (station # rest) (closestStation, minDistance) =
     (let distance = distanceTo qt cityCoord (lat station, lon station)
      in closestLoop qt cityCoord rest
           (if distance < minDistance then (Some station, distance)
            else (closestStation, minDistance)))"

definition onGeocodeReply :: "qt_lib \<Rightarrow> geo_result list QNetworkReply \<Rightarrow> string \<Rightarrow> MainWindow \<Rightarrow> MainWindow" where
  "onGeocodeReply qt reply searchedCity s =
     (case reply of
        Error e \<Rightarrow> s\<lparr>m_status := Blad @ '' wyszukiwania: '' @ e\<rparr>
      | NoError results \<Rightarrow>
         (case results of
            [] \<Rightarrow> s\<lparr>m_status := ''Nie znaleziono miasta.''\<rparr>
          | result # _ \<Rightarrow>
             (let city_lat = toDouble qt (geo_lat result);
                  city_lon = toDouble qt (geo_lon result);
                  s1 = s\<lparr>m_mapCenter := (city_lat, city_lon)\<rparr>;
                  s2 = s1\<lparr>m_stations := []\<rparr>;
                  s3 = s2\<lparr>m_allStations :=
                            map (\<lambda>station. station\<lparr>isSearched := False\<rparr>) (m_allStations s2)\<rparr>;
                  normalizedSearchedCity = simplified qt (toLower qt searchedCity);
                  s4 = exactMatches qt normalizedSearchedCity (m_allStations s3) s3
              in if m_stations s4 = [] then
                   (case fst (closestLoop qt (city_lat, city_lon) (m_allStations s4) (None, DBL_MAX)) of
                      Some closestStation \<Rightarrow>
                        (updateStationSearchStatus (stationId closestStation) True
                           (s4\<lparr>m_stations := m_stations s4 @ [closestStation\<lparr>isSearched := True\<rparr>]\<rparr>))
                        \<lparr>m_mapCenter := (lat closestStation, lon closestStation),
                         m_status := ''Nie znaleziono stacji w '' @ searchedCity @ ''. Najbli''
                           @ [CHR 0xC5, CHR 0xBC] @ ''sza stacja znajduje si'' @ [CHR 0xC4, CHR 0x99]
                           @ '' w '' @ cityName closestStation @ ''.''\<rparr>
                    | None \<Rightarrow> s4\<lparr>m_status := ''Nie znaleziono stacji w '' @ searchedCity @ ''.''\<rparr>)
                 else s4\<lparr>m_status := ''Znaleziono '' @ QString_number (int (length (m_stations s4)))
                                         @ '' stacji w '' @ searchedCity @ ''.''\<rparr>)))"

text \<open>
  \<^verbatim>\<open>saveStationData\<close>: lines 141-214. The function reads the clock twice and opens a file;
  both are inputs. The result is the state after and the file written, if any: its name and
  the JSON document, kept as a structure. \<^verbatim>\<open>m_sensorData[...]\<close> at line 180 is the non-const
  \<^verbatim>\<open>QMap::operator[]\<close>, which inserts an invalid \<^verbatim>\<open>QVariant\<close> under a key that is absent.
\<close>

record measurementObj =
  mo_date :: string
  mo_value :: jsnum

record sensorObj =
  so_sensorId :: int
  so_paramName :: string
  so_measurements :: "measurementObj list"

record jsonObj =
  jo_stationId :: int
  jo_stationName :: string
  jo_cityName :: string
  jo_address :: string
  jo_latitude :: real
  jo_longitude :: real
  jo_saveDate :: string
  jo_sensors :: "sensorObj list"

record save_env =
  now_ISODate :: string
  now_yyyyMMdd_HHmmss :: string
  file_open :: "string \<Rightarrow> bool"

definition variant_toList :: "qvariant option \<Rightarrow> sample list" where
  "variant_toList v = (case v of Some (QVList l) \<Rightarrow> l | _ \<Rightarrow> [])"

definition variant_toDouble :: "jsnum option \<Rightarrow> jsnum" where
  "variant_toDouble v = (case v of None \<Rightarrow> Fin 0 | Some x \<Rightarrow> x)"

definition map_index_insert :: "(string \<rightharpoonup> qvariant) \<Rightarrow> string \<Rightarrow> (string \<rightharpoonup> qvariant)" where
  "map_index_insert m k = (case m k of None \<Rightarrow> m(k \<mapsto> Invalid) | Some _ \<Rightarrow> m)"

definition saveStationData ::
  "save_env \<Rightarrow> int \<Rightarrow> string \<Rightarrow> string \<Rightarrow> MainWindow \<Rightarrow> MainWindow \<times> (string \<times> jsonObj) option" where
  "saveStationData env sid city addr s =
     (case find (\<lambda>st. stationId st = sid) (m_allStations s) of
        None \<Rightarrow>
          (s\<lparr>m_status := Blad @ '': Stacja o ID '' @ QString_number sid @ '' nie znaleziona.''\<rparr>, None)
      | Some station \<Rightarrow>
          (let sensorsArray =
                 map (\<lambda>sensorInfo.
                        \<lparr>so_sensorId = sensorId sensorInfo, so_paramName = paramName sensorInfo,
                         so_measurements =
                           map (\<lambda>dataMap. \<lparr>mo_date = date dataMap,
                                            mo_value = variant_toDouble (val dataMap)\<rparr>)
                             (variant_toList (m_sensorData s (QString_number (sensorId sensorInfo))))\<rparr>)
                   (m_sensors s);
               jsonDoc = \<lparr>jo_stationId = sid, jo_stationName = stationName station,
                          jo_cityName = city, jo_address = addr,
                          jo_latitude = lat station, jo_longitude = lon station,
                          jo_saveDate = now_ISODate env, jo_sensors = sensorsArray\<rparr>;
               s1 = s\<lparr>m_sensorData :=
                        foldl (\<lambda>m sensorInfo. map_index_insert m (QString_number (sensorId sensorInfo)))
                          (m_sensorData s) (m_sensors s)\<rparr>;
               filename = ''station_'' @ QString_number sid @ ''_'' @ now_yyyyMMdd_HHmmss env @ ''.json''
           in if \<not> file_open env filename then
                (s1\<lparr>m_status := Blad @ '': Nie mo'' @ [CHR 0xC5, CHR 0xBC] @ ''na otworzy''
                        @ [CHR 0xC4, CHR 0x87] @ '' pliku do zapisu: '' @ filename\<rparr>, None)
              else
                (s1\<lparr>m_status := ''Dane zapisano do pliku: '' @ filename\<rparr>, Some (filename, jsonDoc))))"

subsection \<open>Example data\<close>

definition warszawa :: Station where
  "warszawa = \<lparr>stationId = 1, stationName = ''Warszawa-Komunikacyjna'', cityName = ''Warszawa'',
     address = ''al. Niepodleglosci'', lat = 52.23, lon = 21.01, isSearched = True\<rparr>"

definition krakow :: Station where
  "krakow = \<lparr>stationId = 2, stationName = ''Krakow-Bujaka'', cityName = ''Krakow'',
     address = ''ul. Bujaka'', lat = 50.06, lon = 19.94, isSearched = False\<rparr>"

definition series7 :: "sample list" where
  "series7 = [\<lparr>date = ''2025-01-01 00:00:00'', val = Some (Fin 5)\<rparr>]"

definition window0 :: MainWindow where
  "window0 = \<lparr>m_mapCenter = (52.2297, 21.0122), m_status = ''Gotowe'',
     m_stations = [warszawa], m_allStations = [warszawa, krakow],
     m_sensors = [\<lparr>sensorId = 7, paramName = ''PM10''\<rparr>],
     m_sensorData = [QString_number 7 \<mapsto> QVList series7]\<rparr>"

text \<open>
  A window whose store holds an older series of sensor 7, the series of sensor 3 and an
  entry under the key \<^verbatim>\<open>test\<close>; and a later reply for sensor 7 with two data points, the
  first of them with the value \<^verbatim>\<open>null\<close>.
\<close>

definition window7 :: MainWindow where
  "window7 = \<lparr>m_mapCenter = (52.2297, 21.0122), m_status = ''Gotowe'',
     m_stations = [warszawa], m_allStations = [warszawa, krakow],
     m_sensors = [\<lparr>sensorId = 7, paramName = ''PM10''\<rparr>],
     m_sensorData = [QString_number 7 \<mapsto> QVList series7,
                     QString_number 3 \<mapsto> QVList [\<lparr>date = ''2025-01-01 00:00:00'', val = Some (Fin 20)\<rparr>],
                     ''test'' \<mapsto> Invalid]\<rparr>"

definition values7_later :: "dataPoint list" where
  "values7_later = [\<lparr>dp_date = ''2025-01-02 01:00:00'', dp_value = None\<rparr>,
                    \<lparr>dp_date = ''2025-01-02 00:00:00'', dp_value = Some 8\<rparr>]"

text \<open>A stand-in for the Qt functions: identity normalisation and a taxicab distance.\<close>

definition qt0 :: qt_lib where
  "qt0 = \<lparr>toLower = (\<lambda>s. s), simplified = (\<lambda>s. s),
          toDouble = (\<lambda>s. if s = ''50.0'' then 50 else 0),
          distanceTo = (\<lambda>a b. \<bar>fst a - fst b\<bar> + \<bar>snd a - snd b\<bar>)\<rparr>"

definition geo0 :: geo_result where
  "geo0 = \<lparr>geo_lat = ''50.0'', geo_lon = ''0.0''\<rparr>"

definition env0 :: save_env where
  "env0 = \<lparr>now_ISODate = ''2025-04-22T10:15:00'', now_yyyyMMdd_HHmmss = ''20250422_101500'',
           file_open = (\<lambda>filename. True)\<rparr>"

section \<open>The station dialog (StationDialog.qml)\<close>

text \<open>
  The chart is painted by the \<^verbatim>\<open>onPaint\<close> handler of \<^verbatim>\<open>chartCanvas\<close>, the statistics are
  the four \<^verbatim>\<open>text\<close> bindings below it. Both read \<^verbatim>\<open>mainWindow.sensorData\<close>, the JavaScript
  view of \<^verbatim>\<open>m_sensorData\<close>. The model keeps what the handler computes and which path and text
  commands it issues; pixels are the canvas's business. Line numbers in this part are those
  of the file that holds the dialog, \<^verbatim>\<open>src/unnamed/part_001\<close>.
\<close>

subsection \<open>JavaScript numbers\<close>

text \<open>
  The exact operators on \<^typ>\<open>jsnum\<close>: the operators of ECMAScript on the extended
  reals, before any rounding. NaN is contagious, \<open>0/0\<close> and \<open>\<infinity> - \<infinity>\<close> and \<open>0 \<sdot> \<infinity>\<close> are
  NaN, a non-zero value over zero is an infinity. Zero is unsigned.
\<close>

definition inf_of_sign :: "real \<Rightarrow> jsnum" where
  "inf_of_sign s = (if s = 0 then NaN else if 0 < s then PInf else NInf)"

fun js_sign :: "jsnum \<Rightarrow> real" where
  "js_sign (Fin a) = sgn a"
| "js_sign PInf = 1"
| "js_sign NInf = - 1"
| "js_sign NaN = 0"

fun js_neg :: "jsnum \<Rightarrow> jsnum" where
  "js_neg (Fin a) = Fin (- a)"
| "js_neg PInf = NInf"
| "js_neg NInf = PInf"
| "js_neg NaN = NaN"

fun js_add :: "jsnum \<Rightarrow> jsnum \<Rightarrow> jsnum" where
  "js_add (Fin a) (Fin b) = Fin (a + b)"
| "js_add NaN y = NaN"
| "js_add x NaN = NaN"
| "js_add PInf NInf = NaN"
| "js_add NInf PInf = NaN"
| "js_add PInf y = PInf"
| "js_add x PInf = PInf"
| "js_add NInf y = NInf"
| "js_add x NInf = NInf"

definition js_sub :: "jsnum \<Rightarrow> jsnum \<Rightarrow> jsnum" where
  "js_sub x y = js_add x (js_neg y)"

fun js_mul :: "jsnum \<Rightarrow> jsnum \<Rightarrow> jsnum" where
  "js_mul (Fin a) (Fin b) = Fin (a * b)"
| "js_mul NaN y = NaN"
| "js_mul x NaN = NaN"
| "js_mul x y = inf_of_sign (js_sign x * js_sign y)"

fun js_div :: "jsnum \<Rightarrow> jsnum \<Rightarrow> jsnum" where
  "js_div (Fin a) (Fin b) = (if b = 0 then inf_of_sign (sgn a) else Fin (a / b))"
| "js_div NaN y = NaN"
| "js_div x NaN = NaN"
| "js_div (Fin a) y = Fin 0"
| "js_div x (Fin b) = inf_of_sign (js_sign x * (if b < 0 then - 1 else 1))"
| "js_div x y = NaN"

fun Math_max :: "jsnum \<Rightarrow> jsnum \<Rightarrow> jsnum" where
  "Math_max (Fin a) (Fin b) = Fin (max a b)"
| "Math_max NaN y = NaN"
| "Math_max x NaN = NaN"
| "Math_max PInf y = PInf"
| "Math_max x PInf = PInf"
| "Math_max NInf y = y"
| "Math_max x NInf = x"

fun Math_min :: "jsnum \<Rightarrow> jsnum \<Rightarrow> jsnum" where
  "Math_min (Fin a) (Fin b) = Fin (min a b)"
| "Math_min NaN y = NaN"
| "Math_min x NaN = NaN"
| "Math_min NInf y = NInf"
| "Math_min x NInf = NInf"
| "Math_min PInf y = y"
| "Math_min x PInf = x"

definition isNaN :: "jsnum \<Rightarrow> bool" where
  "isNaN x \<longleftrightarrow> x = NaN"

text \<open>Strict equality \<^verbatim>\<open>===\<close> of two numbers: NaN equals nothing.\<close>

definition strict_eq :: "jsnum \<Rightarrow> jsnum \<Rightarrow> bool" where
  "strict_eq x y \<longleftrightarrow> x \<noteq> NaN \<and> y \<noteq> NaN \<and> x = y"

definition Number_MAX_VALUE :: jsnum where
  "Number_MAX_VALUE = Fin DBL_MAX"

subsection \<open>Binary64 arithmetic\<close>

text \<open>
  A JavaScript number is an IEEE 754 binary64 value, and every arithmetic operator returns
  the exact result rounded to the nearest such value, ties to the even significand, with
  overflow to an infinity. \<open>f64_exponent x\<close> is the exponent of the unit in the last place at
  \<open>x\<close> (at least \<open>-1074\<close>, the subnormal spacing); \<open>f64_round\<close> rounds a real to that grid.
  The operators \<open>f64_add\<close>, \<open>f64_sub\<close>, \<open>f64_mul\<close> and \<open>f64_div\<close> are the exact ones followed
  by the rounding. They are used wherever the code's result is shown as text. The pixel
  coordinates of the chart keep the exact operators.
\<close>

definition round_half_even :: "real \<Rightarrow> int" where
  "round_half_even q =
     (let n = \<lfloor>q\<rfloor>; d = q - of_int n
      in if d < 1 / 2 then n else if 1 / 2 < d then n + 1 else if even n then n else n + 1)"

definition f64_exponent :: "real \<Rightarrow> int" where
  "f64_exponent x = max (- 1074) (\<lfloor>log 2 \<bar>x\<bar>\<rfloor> - 52)"

definition f64_round :: "real \<Rightarrow> jsnum" where
  "f64_round x =
     (if x = 0 then Fin 0
      else
        (let e = f64_exponent x;
             r = of_int (round_half_even (x / 2 powi e)) * 2 powi e
         in if DBL_MAX < \<bar>r\<bar> then inf_of_sign x else Fin r))"

definition f64 :: "jsnum \<Rightarrow> jsnum" where
  "f64 x = (case x of Fin r \<Rightarrow> f64_round r | _ \<Rightarrow> x)"

definition f64_add :: "jsnum \<Rightarrow> jsnum \<Rightarrow> jsnum" where
  "f64_add x y = f64 (js_add x y)"

definition f64_sub :: "jsnum \<Rightarrow> jsnum \<Rightarrow> jsnum" where
  "f64_sub x y = f64 (js_sub x y)"

definition f64_mul :: "jsnum \<Rightarrow> jsnum \<Rightarrow> jsnum" where
  "f64_mul x y = f64 (js_mul x y)"

definition f64_div :: "jsnum \<Rightarrow> jsnum \<Rightarrow> jsnum" where
  "f64_div x y = f64 (js_div x y)"

text \<open>
  \<^verbatim>\<open>Number.prototype.toFixed(f)\<close>, by the steps of ECMAScript: the sign, then for a magnitude
  below \<open>10\<^sup>2\<^sup>1\<close> the integer nearest to \<open>|x| \<sdot> 10\<^sup>f\<close> (the larger one on a tie) in decimal,
  padded with zeros to more than \<open>f\<close> digits, with the point before the last \<open>f\<close> digits.
  From \<open>10\<^sup>2\<^sup>1\<close> on the digits are those of the engine's \<^verbatim>\<open>Number::toString\<close>, a parameter
  here.
\<close>

definition toFixed :: "(real \<Rightarrow> string) \<Rightarrow> nat \<Rightarrow> jsnum \<Rightarrow> string" where
  "toFixed numberToString f x =
     (case x of
        NaN \<Rightarrow> ''NaN''
      | PInf \<Rightarrow> ''Infinity''
      | NInf \<Rightarrow> ''-Infinity''
      | Fin r \<Rightarrow>
          (let s = (if r < 0 then ''-'' else []);
               a = \<bar>r\<bar>;
               m = (if 10 ^ 21 \<le> a then numberToString a
                    else
                      (let n = nat \<lfloor>a * 10 ^ f + 1 / 2\<rfloor>;
                           m = nat_digits n
                       in if f \<noteq> 0 then
                            (let k = length m;
                                 z = (if k \<le> f then replicate (f + 1 - k) (CHR ''0'') @ m else m);
                                 k = length z
                             in take (k - f) z @ ''.'' @ drop (k - f) z)
                          else m))
           in s @ m))"

subsection \<open>The selection object and the store as the dialog sees them\<close>

text \<open>
  \<^verbatim>\<open>selectedSensors\<close> is a JavaScript object whose property keys are sensor ids; the list
  holds its properties in creation order. Checking a box assigns \<^verbatim>\<open>selectedSensors[id]\<close>,
  unchecking deletes the property (lines 106-115; the calls to \<^verbatim>\<open>fetchSensorData\<close> and
  \<^verbatim>\<open>removeSensorData\<close> are the slots above).
\<close>

type_synonym selection = "(int \<times> string) list"

definition onCheckedChanged :: "bool \<Rightarrow> sensorInfo \<Rightarrow> selection \<Rightarrow> selection" where
  "onCheckedChanged checked modelData selectedSensors =
     (if checked then AList.update (sensorId modelData) (paramName modelData) selectedSensors
      else AList.delete (sensorId modelData) selectedSensors)"

text \<open>
  \<^verbatim>\<open>Object.keys\<close> (ECMAScript OrdinaryOwnPropertyKeys): the keys that are array indices,
  that is the integers from 0 to \<open>2\<^sup>3\<^sup>2 - 2\<close>, in ascending numeric order, then the other keys
  in creation order.
\<close>

definition isArrayIndex :: "int \<Rightarrow> bool" where
  "isArrayIndex k \<longleftrightarrow> 0 \<le> k \<and> k < 2 ^ 32 - 1"

definition Object_keys :: "selection \<Rightarrow> int list" where
  "Object_keys obj =
     sort (filter isArrayIndex (map fst obj)) @ filter (\<lambda>k. \<not> isArrayIndex k) (map fst obj)"

text \<open>
  \<^verbatim>\<open>sensorData[sensorId]\<close>: the array stored under the decimal rendering of the id;
  \<^verbatim>\<open>None\<close> is \<^verbatim>\<open>undefined\<close>, the value of a missing key and of an invalid \<^verbatim>\<open>QVariant\<close>.
\<close>

definition sensorData_at :: "(string \<rightharpoonup> qvariant) \<Rightarrow> int \<Rightarrow> sample list option" where
  "sensorData_at sensorData sid =
     (case sensorData (QString_number sid) of Some (QVList data) \<Rightarrow> Some data | _ \<Rightarrow> None)"

definition colors :: "string list" where
  "colors = [''#4CAF50'', ''#FF0000'', ''#0000FF'', ''#FFA500'', ''#800080'', ''#00CED1'']"

subsection \<open>Painting the chart\<close>

text \<open>Lines 206-225: the value range over all selected series, the time points of the first.\<close>

fun scanData :: "sample list \<Rightarrow> jsnum \<times> jsnum \<Rightarrow> jsnum \<times> jsnum" where
  "scanData [] (globalMaxValue, globalMinValue) = (globalMaxValue, globalMinValue)"
| "scanData (p # ps) (globalMaxValue, globalMinValue) =
     scanData ps
       (case val p of
          None \<Rightarrow> (globalMaxValue, globalMinValue)
        | Some v \<Rightarrow>
            if \<not> isNaN v then (Math_max globalMaxValue v, Math_min globalMinValue v)
            else (globalMaxValue, globalMinValue))"

fun scanSensors :: "(string \<rightharpoonup> qvariant) \<Rightarrow> nat \<Rightarrow> int list \<Rightarrow> (jsnum \<times> jsnum) \<times> string list
                    \<Rightarrow> (jsnum \<times> jsnum) \<times> string list" where
  "scanSensors sensorData i [] acc = acc"
| "scanSensors sensorData i (sid # rest) (minmax, timePoints) =
     (case sensorData_at sensorData sid of
        None \<Rightarrow> scanSensors sensorData (Suc i) rest (minmax, timePoints)
      | Some data \<Rightarrow>
          scanSensors sensorData (Suc i) rest
            (scanData data minmax, if i = 0 then timePoints @ map date data else timePoints))"

text \<open>Lines 262-273: the path of one series.\<close>

datatype path_cmd = MoveTo jsnum jsnum | LineTo jsnum jsnum

definition xPos :: "real \<Rightarrow> nat \<Rightarrow> nat \<Rightarrow> jsnum" where
  "xPos width n i = js_mul (js_div (Fin (real i)) (js_sub (Fin (real n)) (Fin 1))) (Fin width)"

definition yPos :: "real \<Rightarrow> jsnum \<Rightarrow> jsnum \<Rightarrow> jsnum \<Rightarrow> jsnum" where
  "yPos height globalMinValue globalMaxValue v =
     js_sub (Fin height)
       (js_mul (js_div (js_sub v globalMinValue) (js_sub globalMaxValue globalMinValue)) (Fin height))"

fun plotLoop :: "real \<Rightarrow> real \<Rightarrow> jsnum \<Rightarrow> jsnum \<Rightarrow> nat \<Rightarrow> sample list \<Rightarrow> nat \<Rightarrow> bool \<Rightarrow> path_cmd list" where
  "plotLoop width height gmin gmax n [] i firstPoint = []"
| "plotLoop width height gmin gmax n (p # ps) i firstPoint =
     (case val p of
        None \<Rightarrow> plotLoop width height gmin gmax n ps (Suc i) firstPoint
      | Some v \<Rightarrow>
          if isNaN v then plotLoop width height gmin gmax n ps (Suc i) firstPoint
          else (if firstPoint then MoveTo (xPos width n i) (yPos height gmin gmax v)
                else LineTo (xPos width n i) (yPos height gmin gmax v))
               # plotLoop width height gmin gmax n ps (Suc i) False)"

definition plotSeries :: "real \<Rightarrow> real \<Rightarrow> jsnum \<Rightarrow> jsnum \<Rightarrow> sample list \<Rightarrow> path_cmd list" where
  "plotSeries width height gmin gmax data = plotLoop width height gmin gmax (length data) data 0 True"

text \<open>
  Lines 253-275: one stroked path per selected sensor that has a colour; \<^verbatim>\<open>None\<close> where the
  loop body is left by \<^verbatim>\<open>continue\<close> because the sensor has no data.
\<close>

definition plotAll :: "real \<Rightarrow> real \<Rightarrow> jsnum \<Rightarrow> jsnum \<Rightarrow> (string \<rightharpoonup> qvariant) \<Rightarrow> int list
                       \<Rightarrow> (string \<times> path_cmd list option) list" where
  "plotAll width height gmin gmax sensorData selectedSensorIds =
     map (\<lambda>(color, sid). (color, map_option (plotSeries width height gmin gmax) (sensorData_at sensorData sid)))
       (zip colors selectedSensorIds)"

text \<open>
  Lines 300-307: the labels of the value axis, each a call \<^verbatim>\<open>fillText(text, x, y)\<close>. The
  value of a label (line 302) is computed in binary64, since its digits are shown.
\<close>

definition tickValue :: "jsnum \<Rightarrow> jsnum \<Rightarrow> nat \<Rightarrow> jsnum" where
  "tickValue gmin gmax i = f64_add gmin (f64_div (f64_mul (Fin (real i)) (f64_sub gmax gmin)) (Fin 5))"

definition valueAxisLabels :: "(real \<Rightarrow> string) \<Rightarrow> real \<Rightarrow> jsnum \<Rightarrow> jsnum \<Rightarrow> (string \<times> jsnum \<times> jsnum) list" where
  "valueAxisLabels numberToString height gmin gmax =
     concat (map (\<lambda>i.
        (let v = tickValue gmin gmax i;
             y = js_sub (Fin height) (js_div (js_mul (Fin (real i)) (Fin height)) (Fin 5))
         in if \<not> isNaN v then [(toFixed numberToString 1 v, Fin 10, js_sub y (Fin 5))] else []))
       [0 ..< 6])"

text \<open>
  \<^verbatim>\<open>String.prototype.split\<close> with a separator of one character: the pieces between the
  occurrences of the separator, at least one piece.
\<close>

fun split :: "char \<Rightarrow> string \<Rightarrow> string list" where
  "split c [] = [[]]"
| "split c (x # xs) =
     (if x = c then [] # split c xs
      else (case split c xs of [] \<Rightarrow> [[x]] | w # ws \<Rightarrow> (x # w) # ws))"

datatype js_error = TypeError

text \<open>
  Lines 277-298: the loop that draws the time labels. Each time point is split at the
  space; \<^verbatim>\<open>time = dateTime[1]\<close> is \<^verbatim>\<open>undefined\<close> when there is no second piece, and
  \<^verbatim>\<open>time.split(":")\<close> then throws a TypeError, which ends the handler. Nothing else in the loop
  throws. The labels that the loop draws are not part of the result; the function tells
  whether the loop completes.
\<close>

fun timeLabelLoop :: "string list \<Rightarrow> js_error option" where
  "timeLabelLoop [] = None"
| "timeLabelLoop (tp # rest) =
     (case split (CHR '' '') tp of
        dateTime0 # time # pieces \<Rightarrow> timeLabelLoop rest
      | _ \<Rightarrow> Some TypeError)"

text \<open>
  The handler as a whole. The background grid and the axes (lines 170-192) do not depend on
  the data, and the day markers (lines 238-251) are drawn from \<^verbatim>\<open>timePoints\<close> alone and throw
  nothing; they are not part of the result. The series are stroked before the time labels
  are drawn, the value labels after them: \<^verbatim>\<open>valueLabels\<close> is the error when the time-label
  loop has thrown.
\<close>

record chart =
  timePoints :: "string list"
  globalMinValue :: jsnum
  globalMaxValue :: jsnum
  strokes :: "(string \<times> path_cmd list option) list"
  valueLabels :: "js_error + (string \<times> jsnum \<times> jsnum) list"

datatype paint = Placeholder string | Drawn chart

definition onPaint :: "(real \<Rightarrow> string) \<Rightarrow> real \<Rightarrow> real \<Rightarrow> selection \<Rightarrow> (string \<rightharpoonup> qvariant) \<Rightarrow> paint" where
  "onPaint numberToString width height selectedSensors sensorData =
     (let selectedSensorIds = Object_keys selectedSensors
      in if length selectedSensorIds = 0 \<or> sensorData = Map.empty then
           Placeholder (''Wybierz mierzone parametry aby wy'' @ [CHR 0xC5, CHR 0x9B] @ ''wietli''
                          @ [CHR 0xC4, CHR 0x87] @ '' odczyty.'')
         else
           (case scanSensors sensorData 0 selectedSensorIds
                   ((js_neg Number_MAX_VALUE, Number_MAX_VALUE), []) of
              ((gmax0, gmin0), tps) \<Rightarrow>
                (let gmax = (if strict_eq gmax0 gmin0 then f64_add gmax0 (Fin 1) else gmax0);
                     gmin = (if strict_eq gmax0 gmin0 then f64_sub gmin0 (Fin 1) else gmin0)
                 in if length tps = 0 then Placeholder ''Brak danych czasowych.''
                    else Drawn \<lparr>timePoints = tps, globalMinValue = gmin, globalMaxValue = gmax,
                                 strokes = plotAll width height gmin gmax sensorData selectedSensorIds,
                                 valueLabels =
                                   (case timeLabelLoop tps of
                                      Some e \<Rightarrow> Inl e
                                    | None \<Rightarrow> Inr (valueAxisLabels numberToString height gmin gmax))\<rparr>)))"

text \<open>
  What the canvas makes of a path: \<^verbatim>\<open>moveTo\<close> starts a new subpath at its point, \<^verbatim>\<open>lineTo\<close>
  adds the straight segment from the current point to its point.
\<close>

fun segments_from :: "(jsnum \<times> jsnum) option \<Rightarrow> path_cmd list \<Rightarrow> ((jsnum \<times> jsnum) \<times> (jsnum \<times> jsnum)) list" where
  "segments_from cur [] = []"
| "segments_from cur (MoveTo x y # cs) = segments_from (Some (x, y)) cs"
| "segments_from None (LineTo x y # cs) = segments_from (Some (x, y)) cs"
| "segments_from (Some p) (LineTo x y # cs) = (p, (x, y)) # segments_from (Some (x, y)) cs"

definition segments :: "path_cmd list \<Rightarrow> ((jsnum \<times> jsnum) \<times> (jsnum \<times> jsnum)) list" where
  "segments cs = segments_from None cs"

text \<open>
  The points of the samples with a valid value, in order of their index; a sample is valid
  when its value is neither \<^verbatim>\<open>null\<close> nor NaN.
\<close>

definition valid :: "sample \<Rightarrow> bool" where
  "valid p \<longleftrightarrow> (case val p of None \<Rightarrow> False | Some v \<Rightarrow> v \<noteq> NaN)"

definition validPoints :: "real \<Rightarrow> real \<Rightarrow> jsnum \<Rightarrow> jsnum \<Rightarrow> sample list \<Rightarrow> (jsnum \<times> jsnum) list" where
  "validPoints width height gmin gmax data =
     map (\<lambda>(i, p). (xPos width (length data) i, yPos height gmin gmax (the (val p))))
       (filter (\<lambda>(i, p). valid p) (enumerate 0 data))"

definition path_of :: "(jsnum \<times> jsnum) list \<Rightarrow> path_cmd list" where
  "path_of pts = (case pts of [] \<Rightarrow> [] | p # ps \<Rightarrow> MoveTo (fst p) (snd p) # map (\<lambda>q. LineTo (fst q) (snd q)) ps)"

text \<open>Reading the result of the handler.\<close>

definition drawn :: "paint \<Rightarrow> chart option" where
  "drawn r = (case r of Drawn ch \<Rightarrow> Some ch | Placeholder text \<Rightarrow> None)"

subsection \<open>The statistics texts\<close>

text \<open>
  Lines 384-452. Each binding starts with the same three lines: nothing is shown without a
  current index, \<^verbatim>\<open>mainWindow.sensors[currentIndex].sensorId\<close> throws a TypeError when the
  index is beyond the list, and \<^verbatim>\<open>data\<close> is the store's array for that sensor.
\<close>

definition selectedData :: "sensorInfo list \<Rightarrow> (string \<rightharpoonup> qvariant) \<Rightarrow> int \<Rightarrow> js_error + sample list option" where
  "selectedData sensors sensorData currentIndex =
     (if nat currentIndex < length sensors
      then Inr (sensorData_at sensorData (sensorId (sensors ! nat currentIndex)))
      else Inl TypeError)"

definition ug_m3 :: string where
  "ug_m3 = '' '' @ [CHR 0xC2, CHR 0xB5] @ ''g/m'' @ [CHR 0xC2, CHR 0xB3]"

definition wartosc :: string where
  "wartosc = ''warto'' @ [CHR 0xC5, CHR 0x9B, CHR 0xC4, CHR 0x87]"

definition Srednia :: string where
  "Srednia = [CHR 0xC5, CHR 0x9A] @ ''rednia''"

definition latestValueText :: "(real \<Rightarrow> string) \<Rightarrow> sensorInfo list \<Rightarrow> (string \<rightharpoonup> qvariant) \<Rightarrow> int \<Rightarrow> js_error + string" where
  "latestValueText numberToString sensors sensorData currentIndex =
     (if currentIndex < 0 then Inr []
      else case selectedData sensors sensorData currentIndex of
             Inl e \<Rightarrow> Inl e
           | Inr None \<Rightarrow> Inr ''Brak danych''
           | Inr (Some []) \<Rightarrow> Inr ''Brak danych''
           | Inr (Some (latest # rest)) \<Rightarrow>
               Inr (''Aktualny odczyt: ''
                    @ (case val latest of Some v \<Rightarrow> toFixed numberToString 2 v | None \<Rightarrow> ''Brak'')
                    @ ug_m3 @ '' ('' @ date latest @ '')''))"

fun sumLoop :: "sample list \<Rightarrow> jsnum \<times> nat \<Rightarrow> jsnum \<times> nat" where
  "sumLoop [] (sm, cnt) = (sm, cnt)"
| "sumLoop (p # ps) (sm, cnt) =
     sumLoop ps
       (case val p of
          None \<Rightarrow> (sm, cnt)
        | Some v \<Rightarrow> if \<not> isNaN v then (f64_add sm v, Suc cnt) else (sm, cnt))"

definition averageText :: "(real \<Rightarrow> string) \<Rightarrow> sensorInfo list \<Rightarrow> (string \<rightharpoonup> qvariant) \<Rightarrow> int \<Rightarrow> js_error + string" where
  "averageText numberToString sensors sensorData currentIndex =
     (if currentIndex < 0 then Inr []
      else case selectedData sensors sensorData currentIndex of
             Inl e \<Rightarrow> Inl e
           | Inr None \<Rightarrow> Inr (Srednia @ '' '' @ wartosc @ '': Brak danych'')
           | Inr (Some []) \<Rightarrow> Inr (Srednia @ '' '' @ wartosc @ '': Brak danych'')
           | Inr (Some data) \<Rightarrow>
               (case sumLoop data (Fin 0, 0) of
                  (sm, cnt) \<Rightarrow>
                    Inr (Srednia @ '' '' @ wartosc @ '': ''
                         @ (if 0 < cnt then toFixed numberToString 2 (f64_div sm (Fin (real cnt)))
                            else ''Brak'')
                         @ ug_m3)))"

fun minLoop :: "sample list \<Rightarrow> jsnum \<Rightarrow> jsnum" where
  "minLoop [] m = m"
| "minLoop (p # ps) m =
     minLoop ps (case val p of None \<Rightarrow> m | Some v \<Rightarrow> if \<not> isNaN v then Math_min m v else m)"

definition minimumText :: "(real \<Rightarrow> string) \<Rightarrow> sensorInfo list \<Rightarrow> (string \<rightharpoonup> qvariant) \<Rightarrow> int \<Rightarrow> js_error + string" where
  "minimumText numberToString sensors sensorData currentIndex =
     (if currentIndex < 0 then Inr []
      else case selectedData sensors sensorData currentIndex of
             Inl e \<Rightarrow> Inl e
           | Inr None \<Rightarrow> Inr (''Minimalna '' @ wartosc @ '': Brak danych'')
           | Inr (Some []) \<Rightarrow> Inr (''Minimalna '' @ wartosc @ '': Brak danych'')
           | Inr (Some data) \<Rightarrow>
               (let m = minLoop data Number_MAX_VALUE
                in Inr (''Minimalna '' @ wartosc @ '': ''
                        @ (if \<not> strict_eq m Number_MAX_VALUE then toFixed numberToString 2 m else ''Brak'')
                        @ ug_m3)))"

fun maxLoop :: "sample list \<Rightarrow> jsnum \<Rightarrow> jsnum" where
  "maxLoop [] m = m"
| "maxLoop (p # ps) m =
     maxLoop ps (case val p of None \<Rightarrow> m | Some v \<Rightarrow> if \<not> isNaN v then Math_max m v else m)"

definition maximumText :: "(real \<Rightarrow> string) \<Rightarrow> sensorInfo list \<Rightarrow> (string \<rightharpoonup> qvariant) \<Rightarrow> int \<Rightarrow> js_error + string" where
  "maximumText numberToString sensors sensorData currentIndex =
     (if currentIndex < 0 then Inr []
      else case selectedData sensors sensorData currentIndex of
             Inl e \<Rightarrow> Inl e
           | Inr None \<Rightarrow> Inr (''Maksymalna '' @ wartosc @ '': Brak danych'')
           | Inr (Some []) \<Rightarrow> Inr (''Maksymalna '' @ wartosc @ '': Brak danych'')
           | Inr (Some data) \<Rightarrow>
               (let m = maxLoop data (js_neg Number_MAX_VALUE)
                in Inr (''Maksymalna '' @ wartosc @ '': ''
                        @ (if \<not> strict_eq m (js_neg Number_MAX_VALUE) then toFixed numberToString 2 m else ''Brak'')
                        @ ug_m3)))"

text \<open>The values of the valid samples of a series, in order.\<close>

definition validValues :: "sample list \<Rightarrow> jsnum list" where
  "validValues data = map (\<lambda>p. the (val p)) (filter valid data)"

subsection \<open>Example series and selections\<close>

definition ts0 :: "real \<Rightarrow> string" where
  "ts0 r = ''1e+21''"

definition gap_series :: "sample list" where
  "gap_series = [\<lparr>date = ''2025-01-01 02:00:00'', val = Some (Fin 10)\<rparr>,
                 \<lparr>date = ''2025-01-01 01:00:00'', val = None\<rparr>,
                 \<lparr>date = ''2025-01-01 00:00:00'', val = Some (Fin 20)\<rparr>]"


definition sensorA :: sensorInfo where
  "sensorA = \<lparr>sensorId = 5, paramName = ''PM10''\<rparr>"

definition sensorB :: sensorInfo where
  "sensorB = \<lparr>sensorId = 2, paramName = ''NO2''\<rparr>"

definition seriesA :: "sample list" where
  "seriesA = [\<lparr>date = ''2025-01-01 02:00:00'', val = Some (Fin 10)\<rparr>,
              \<lparr>date = ''2025-01-01 01:00:00'', val = Some (Fin 12)\<rparr>,
              \<lparr>date = ''2025-01-01 00:00:00'', val = Some (Fin 14)\<rparr>]"

definition seriesB :: "sample list" where
  "seriesB = [\<lparr>date = ''2025-01-02 04:00:00'', val = Some (Fin 1)\<rparr>,
              \<lparr>date = ''2025-01-02 03:00:00'', val = Some (Fin 2)\<rparr>,
              \<lparr>date = ''2025-01-02 02:00:00'', val = Some (Fin 3)\<rparr>,
              \<lparr>date = ''2025-01-02 01:00:00'', val = Some (Fin 4)\<rparr>,
              \<lparr>date = ''2025-01-02 00:00:00'', val = Some (Fin 5)\<rparr>]"

definition storeAB :: "string \<rightharpoonup> qvariant" where
  "storeAB = [QString_number 5 \<mapsto> QVList seriesA, QString_number 2 \<mapsto> QVList seriesB]"

text \<open>The user ticks sensor 5 first, then sensor 2.\<close>

definition selectedAB :: selection where
  "selectedAB = onCheckedChanged True sensorB (onCheckedChanged True sensorA [])"

definition sensors3 :: "sensorInfo list" where
  "sensors3 = [\<lparr>sensorId = 3, paramName = ''O3''\<rparr>]"

text \<open>The series of the scenario: a null value at index 0, then 10 and 20.\<close>

definition series3 :: "sample list" where
  "series3 = [\<lparr>date = ''2025-01-01 02:00:00'', val = None\<rparr>,
              \<lparr>date = ''2025-01-01 01:00:00'', val = Some (Fin 10)\<rparr>,
              \<lparr>date = ''2025-01-01 00:00:00'', val = Some (Fin 20)\<rparr>]"

definition store3 :: "string \<rightharpoonup> qvariant" where
  "store3 = [QString_number 3 \<mapsto> QVList series3]"

definition null_series :: "sample list" where
  "null_series = [\<lparr>date = ''2025-01-01 01:00:00'', val = None\<rparr>,
                  \<lparr>date = ''2025-01-01 00:00:00'', val = Some NaN\<rparr>]"

definition store3_null :: "string \<rightharpoonup> qvariant" where
  "store3_null = [QString_number 3 \<mapsto> QVList null_series]"

definition store3_empty :: "string \<rightharpoonup> qvariant" where
  "store3_empty = [QString_number 3 \<mapsto> QVList []]"

text \<open>A chart of one sensor whose readings are 5 and 0.\<close>

definition selected2 :: selection where
  "selected2 = onCheckedChanged True sensorB []"

definition series05 :: "sample list" where
  "series05 = [\<lparr>date = ''2025-01-01 01:00:00'', val = Some (Fin 5)\<rparr>,
               \<lparr>date = ''2025-01-01 00:00:00'', val = Some (Fin 0)\<rparr>]"

definition store05 :: "string \<rightharpoonup> qvariant" where
  "store05 = [QString_number 2 \<mapsto> QVList series05]"

definition chart05 :: chart where
  "chart05 = \<lparr>timePoints = [''2025-01-01 01:00:00'', ''2025-01-01 00:00:00''],
               globalMinValue = Fin 0, globalMaxValue = Fin 5,
               strokes = [(''#4CAF50'', Some [MoveTo (Fin 0) (Fin 0), LineTo (Fin 100) (Fin 100)])],
               valueLabels = Inr [(''0.0'', Fin 10, Fin 95), (''1.0'', Fin 10, Fin 75),
                                  (''2.0'', Fin 10, Fin 55), (''3.0'', Fin 10, Fin 35),
                                  (''4.0'', Fin 10, Fin 15), (''5.0'', Fin 10, Fin (- 5))]\<rparr>"

text \<open>The same sensor with the largest and the smallest finite reading.\<close>

definition series_extreme :: "sample list" where
  "series_extreme = [\<lparr>date = ''2025-01-01 01:00:00'', val = Some (Fin DBL_MAX)\<rparr>,
                     \<lparr>date = ''2025-01-01 00:00:00'', val = Some (Fin (- DBL_MAX))\<rparr>]"

definition store_extreme :: "string \<rightharpoonup> qvariant" where
  "store_extreme = [QString_number 2 \<mapsto> QVList series_extreme]"

text \<open>The same readings as in \<open>series05\<close>, with dates that have no time part.\<close>

definition series_dateonly :: "sample list" where
  "series_dateonly = [\<lparr>date = ''2025-01-02'', val = Some (Fin 5)\<rparr>,
                      \<lparr>date = ''2025-01-01'', val = Some (Fin 0)\<rparr>]"

definition store_dateonly :: "string \<rightharpoonup> qvariant" where
  "store_dateonly = [QString_number 2 \<mapsto> QVList series_dateonly]"

text \<open>A series whose only reading is the largest finite number.\<close>

definition series_max :: "sample list" where
  "series_max = [\<lparr>date = ''2025-01-01 00:00:00'', val = Some (Fin DBL_MAX)\<rparr>]"

definition store3_max :: "string \<rightharpoonup> qvariant" where
  "store3_max = [QString_number 3 \<mapsto> QVList series_max]"

section \<open>Properties\<close>

subsection \<open>The decimal rendering of ids is injective\<close>

lemma digit_char_val: "d < 10 \<Longrightarrow> of_char (digit_char d) - 48 = d"
  by (simp add: digit_char_def)

lemma digits_val_append: "digits_val (xs @ [c]) = 10 * digits_val xs + (of_char c - 48)"
  by (simp add: digits_val_def)

lemma digits_val_nat_digits: "digits_val (nat_digits n) = n"
proof (induction n rule: nat_digits.induct)
  case (1 n)
  show ?case
  proof (cases "n < 10")
    case True
    then show ?thesis
      by (subst nat_digits.simps) (simp add: digits_val_def digit_char_val)
  next
    case False
    then have "digits_val (nat_digits n) = 10 * digits_val (nat_digits (n div 10)) + (of_char (digit_char (n mod 10)) - 48)"
      by (subst nat_digits.simps) (simp add: digits_val_append)
    also have "\<dots> = 10 * (n div 10) + n mod 10"
      using 1 False by (simp add: digit_char_val)
    finally show ?thesis by simp
  qed
qed

lemma digit_char_not_minus: "d < 10 \<Longrightarrow> digit_char d \<noteq> CHR ''-''"
proof
  assume d: "d < 10" and eq: "digit_char d = CHR ''-''"
  have "of_char (digit_char d) = 48 + d" using d by (simp add: digit_char_def)
  moreover have "of_char (CHR ''-'') = (45::nat)" by simp
  ultimately show False using eq by simp
qed

lemma nat_digits_hd: "nat_digits n \<noteq> [] \<and> hd (nat_digits n) \<noteq> CHR ''-''"
proof (induction n rule: nat_digits.induct)
  case (1 n)
  show ?case
  proof (cases "n < 10")
    case True
    then show ?thesis
      by (subst (1 2) nat_digits.simps) (simp add: digit_char_not_minus)
  next
    case False
    with 1 show ?thesis
      by (subst (1 2) nat_digits.simps) simp
  qed
qed

lemma nat_digits_inj: "nat_digits a = nat_digits b \<Longrightarrow> a = b"
  by (metis digits_val_nat_digits)

lemma QString_number_inj: "QString_number a = QString_number b \<Longrightarrow> a = b"
proof -
  assume eq: "QString_number a = QString_number b"
  have neg: "hd (QString_number i) = CHR ''-'' \<longleftrightarrow> i < 0" for i
    using nat_digits_hd [of "nat i"] by (simp add: QString_number_def)
  from eq have sign: "a < 0 \<longleftrightarrow> b < 0" by (metis neg)
  show ?thesis
  proof (cases "a < 0")
    case True
    with sign eq have "nat (- a) = nat (- b)"
      by (simp add: QString_number_def nat_digits_inj)
    with True sign show ?thesis by simp
  next
    case False
    with sign eq have "nat a = nat b"
      by (simp add: QString_number_def nat_digits_inj)
    with False sign show ?thesis by simp
  qed
qed

lemma QString_number_3: "QString_number 3 = ''3''"
  by code_simp

lemma QString_number_7: "QString_number 7 = ''7''"
  by code_simp

subsection \<open>SeriesStore: completion of a data fetch\<close>

text \<open>
  Claim C4. For every sensor id and every prior store, a successful completion of the data
  fetch for that id leaves under its key exactly the delivered samples, in the delivered
  order, each with the date and the value of its data point (a \<^verbatim>\<open>null\<close> value stays
  \<^verbatim>\<open>null\<close>); a failed completion leaves no entry under its key; and whatever the reply was,
  the entry of every other sensor id (indeed of every other key) is as it was before.
\<close>

theorem fetch_completion_replaces_or_removes:
  "m_sensorData (onSensorDataReply (NoError values) sid s) (QString_number sid)
     = Some (QVList (map (\<lambda>p. \<lparr>date = dp_date p, val = map_option Fin (dp_value p)\<rparr>) values))
   \<and> m_sensorData (onSensorDataReply (Error e) sid s) (QString_number sid) = None
   \<and> (\<forall>other. other \<noteq> sid \<longrightarrow>
        m_sensorData (onSensorDataReply reply sid s) (QString_number other)
          = m_sensorData s (QString_number other))
   \<and> (\<forall>k. k \<noteq> QString_number sid \<longrightarrow>
        m_sensorData (onSensorDataReply reply sid s) k = m_sensorData s k)"
proof (intro conjI allI impI)
  have "map toSample values
          = map (\<lambda>p. \<lparr>date = dp_date p, val = map_option Fin (dp_value p)\<rparr>) values"
    by (rule map_cong) (simp_all add: toSample_def)
  then show "m_sensorData (onSensorDataReply (NoError values) sid s) (QString_number sid)
     = Some (QVList (map (\<lambda>p. \<lparr>date = dp_date p, val = map_option Fin (dp_value p)\<rparr>) values))"
    by (simp add: onSensorDataReply_def)
next
  show "m_sensorData (onSensorDataReply (Error e) sid s) (QString_number sid) = None"
    by (simp add: onSensorDataReply_def)
next
  fix other :: int
  assume "other \<noteq> sid"
  then have "QString_number other \<noteq> QString_number sid"
    by (auto dest: QString_number_inj)
  then show "m_sensorData (onSensorDataReply reply sid s) (QString_number other)
          = m_sensorData s (QString_number other)"
    by (simp add: onSensorDataReply_def split: QNetworkReply.splits)
next
  fix k
  assume "k \<noteq> QString_number sid"
  then show "m_sensorData (onSensorDataReply reply sid s) k = m_sensorData s k"
    by (simp add: onSensorDataReply_def split: QNetworkReply.splits)
qed

theorem fetch_completion_witness:
  "(3::int) \<noteq> 7 \<and> ''test'' \<noteq> QString_number 7
   \<and> m_sensorData window7 (QString_number 7)
       = Some (QVList [\<lparr>date = ''2025-01-01 00:00:00'', val = Some (Fin 5)\<rparr>])
   \<and> m_sensorData (onSensorDataReply (NoError values7_later) 7 window7) (QString_number 7)
       = Some (QVList [\<lparr>date = ''2025-01-02 01:00:00'', val = None\<rparr>,
                       \<lparr>date = ''2025-01-02 00:00:00'', val = Some (Fin 8)\<rparr>])
   \<and> m_sensorData (onSensorDataReply (Error ''timeout'') 7 window7) (QString_number 7) = None
   \<and> m_sensorData (onSensorDataReply (NoError values7_later) 7 window7) (QString_number 3)
       = Some (QVList [\<lparr>date = ''2025-01-01 00:00:00'', val = Some (Fin 20)\<rparr>])
   \<and> m_sensorData (onSensorDataReply (Error ''timeout'') 7 window7) (QString_number 3)
       = Some (QVList [\<lparr>date = ''2025-01-01 00:00:00'', val = Some (Fin 20)\<rparr>])
   \<and> m_sensorData (onSensorDataReply (NoError values7_later) 7 window7) ''test'' = Some Invalid
   \<and> m_sensorData (onSensorDataReply (Error ''timeout'') 7 window7) ''test'' = Some Invalid"
proof -
  have old: "m_sensorData window7 (QString_number 7)
               = Some (QVList [\<lparr>date = ''2025-01-01 00:00:00'', val = Some (Fin 5)\<rparr>])"
    "m_sensorData window7 (QString_number 3)
               = Some (QVList [\<lparr>date = ''2025-01-01 00:00:00'', val = Some (Fin 20)\<rparr>])"
    "m_sensorData window7 ''test'' = Some Invalid"
    by (simp_all add: window7_def series7_def QString_number_7 QString_number_3)
  have ne: "(3::int) \<noteq> 7" "''test'' \<noteq> QString_number 7"
    by (simp_all add: QString_number_7)
  note ok = fetch_completion_replaces_or_removes
              [of values7_later 7 window7 "''timeout''" "NoError values7_later"]
  note fail = fetch_completion_replaces_or_removes
              [of values7_later 7 window7 "''timeout''" "Error ''timeout''"]
  from ok have stored:
    "m_sensorData (onSensorDataReply (NoError values7_later) 7 window7) (QString_number 7)
       = Some (QVList [\<lparr>date = ''2025-01-02 01:00:00'', val = None\<rparr>,
                       \<lparr>date = ''2025-01-02 00:00:00'', val = Some (Fin 8)\<rparr>])"
    by (simp add: values7_later_def)
  from fail have removed:
    "m_sensorData (onSensorDataReply (Error ''timeout'') 7 window7) (QString_number 7) = None"
    by blast
  from ok ne have kept_ok:
    "m_sensorData (onSensorDataReply (NoError values7_later) 7 window7) (QString_number 3)
       = m_sensorData window7 (QString_number 3)"
    "m_sensorData (onSensorDataReply (NoError values7_later) 7 window7) ''test''
       = m_sensorData window7 ''test''"
    by blast+
  from fail ne have kept_fail:
    "m_sensorData (onSensorDataReply (Error ''timeout'') 7 window7) (QString_number 3)
       = m_sensorData window7 (QString_number 3)"
    "m_sensorData (onSensorDataReply (Error ''timeout'') 7 window7) ''test''
       = m_sensorData window7 ''test''"
    by blast+
  show ?thesis
    by (intro conjI ne old(1) stored removed) (simp_all only: kept_ok kept_fail old)
qed

subsection \<open>Failures of the asynchronous operations\<close>

text \<open>
  Claim C2, as amended. A failed geocoding request and a failed station-list load each set
  the status text and change nothing else. A failed sensor-list load sets no status text and
  empties the sensor list, changing nothing else. A failed sensor-data fetch sets no status
  text and removes the entry of that sensor id from the store, changing nothing else.
\<close>

theorem failures_by_operation:
  "onGeocodeReply qt (Error e) city s = s\<lparr>m_status := Blad @ '' wyszukiwania: '' @ e\<rparr>
   \<and> onStationsReply qt (Error e) s = s\<lparr>m_status := Blad @ '' pobierania stacji: '' @ e\<rparr>
   \<and> onSensorsReply (Error e) s = s\<lparr>m_sensors := []\<rparr>
   \<and> onSensorDataReply (Error e) sid s
        = s\<lparr>m_sensorData := (m_sensorData s)(QString_number sid := None)\<rparr>"
  by (simp add: onGeocodeReply_def onStationsReply_def onSensorsReply_def onSensorDataReply_def)

text \<open>
  The claim as stated fails for the sensor-list load: with one sensor listed, a failed reply
  leaves the list empty and the status text as it was.
\<close>

theorem sensor_list_failure_counterexample:
  "m_sensors (onSensorsReply (Error ''timeout'') window0) \<noteq> m_sensors window0
   \<and> m_status (onSensorsReply (Error ''timeout'') window0) = m_status window0"
  by (simp add: onSensorsReply_def window0_def)

subsection \<open>Geocoding with an empty result\<close>

text \<open>
  Claim C10. When the geocoding request succeeds with an empty result array, only the status
  text changes: the map centre, the list of searched stations and the catalogue with every
  \<^verbatim>\<open>isSearched\<close> flag stay as they were. The flags of the catalogue change only under a
  reply that carries at least one result.
\<close>

theorem empty_geocode_result_changes_status_only:
  "onGeocodeReply qt (NoError []) city s = s\<lparr>m_status := ''Nie znaleziono miasta.''\<rparr>
   \<and> m_mapCenter (onGeocodeReply qt (NoError []) city s) = m_mapCenter s
   \<and> m_stations (onGeocodeReply qt (NoError []) city s) = m_stations s
   \<and> m_allStations (onGeocodeReply qt (NoError []) city s) = m_allStations s
   \<and> (map isSearched (m_allStations (onGeocodeReply qt reply city s)) \<noteq> map isSearched (m_allStations s)
        \<longrightarrow> (\<exists>r rs. reply = NoError (r # rs)))"
  by (auto simp: onGeocodeReply_def split: QNetworkReply.splits list.splits)

theorem empty_geocode_result_witness:
  "map isSearched (m_allStations (onGeocodeReply qt0 (NoError [geo0]) ''Krakow'' window0))
     \<noteq> map isSearched (m_allStations window0)
   \<and> (\<exists>r rs. NoError [geo0] = NoError (r # rs))"
proof -
  have "map isSearched (m_allStations (onGeocodeReply qt0 (NoError [geo0]) ''Krakow'' window0))
          = [False, True]"
    by (simp add: onGeocodeReply_def Let_def window0_def warszawa_def krakow_def qt0_def geo0_def
          updateStationSearchStatus_def)
  moreover have "map isSearched (m_allStations window0) = [True, False]"
    by (simp add: window0_def warszawa_def krakow_def)
  ultimately have ch: "map isSearched (m_allStations (onGeocodeReply qt0 (NoError [geo0]) ''Krakow'' window0))
     \<noteq> map isSearched (m_allStations window0)"
    by simp
  with empty_geocode_result_changes_status_only [of qt0 "''Krakow''" window0 "NoError [geo0]"]
  show ?thesis by blast
qed

subsection \<open>Saving the data of an unknown station\<close>

lemma find_not_found: "\<forall>st\<in>set xs. \<not> P st \<Longrightarrow> find P xs = None"
  by (simp add: find_None_iff)

text \<open>
  Claim C9. When no station of the catalogue has the given id, \<^verbatim>\<open>saveStationData\<close> writes
  no file and returns the state with only the status text changed, to the message that
  names the missing id; the sensor list, the store and both station lists are as before.
\<close>

theorem save_unknown_station_writes_nothing:
  assumes "\<forall>st\<in>set (m_allStations s). stationId st \<noteq> sid"
  shows "saveStationData env sid city addr s
           = (s\<lparr>m_status := Blad @ '': Stacja o ID '' @ QString_number sid @ '' nie znaleziona.''\<rparr>, None)"
  using assms by (simp add: saveStationData_def find_not_found)

theorem save_unknown_station_witness:
  "m_allStations window0 = [warszawa, krakow] \<and> stationId warszawa \<noteq> 99 \<and> stationId krakow \<noteq> 99
   \<and> snd (saveStationData env0 99 ''Warszawa'' ''Marszalkowska 1'' window0) = None
   \<and> m_sensorData (fst (saveStationData env0 99 ''Warszawa'' ''Marszalkowska 1'' window0))
        = m_sensorData window0
   \<and> m_sensors (fst (saveStationData env0 99 ''Warszawa'' ''Marszalkowska 1'' window0))
        = m_sensors window0
   \<and> m_allStations (fst (saveStationData env0 99 ''Warszawa'' ''Marszalkowska 1'' window0))
        = m_allStations window0
   \<and> m_stations (fst (saveStationData env0 99 ''Warszawa'' ''Marszalkowska 1'' window0))
        = m_stations window0"
proof -
  have all: "m_allStations window0 = [warszawa, krakow]"
    by (simp add: window0_def)
  have ids: "stationId warszawa \<noteq> 99" "stationId krakow \<noteq> 99"
    by (simp_all add: warszawa_def krakow_def)
  have h: "\<forall>st\<in>set (m_allStations window0). stationId st \<noteq> 99"
    using ids by (simp add: all)
  show ?thesis
    using all ids save_unknown_station_writes_nothing [OF h, of env0 "''Warszawa''" "''Marszalkowska 1''"]
    by simp
qed

subsection \<open>Nearest-station fallback\<close>

lemma exactMatches_none:
  "\<forall>st\<in>set xs. simplified qt (toLower qt (cityName st)) \<noteq> n \<Longrightarrow> exactMatches qt n xs s = s"
  by (induction xs arbitrary: s) auto

lemma closestLoop_inv:
  "closestLoop qt q xs (c, d) = (c', d') \<Longrightarrow>
     d' \<le> d \<and> (\<forall>x\<in>set xs. d' \<le> distanceTo qt q (lat x, lon x))
     \<and> ((c', d') = (c, d) \<or> (\<exists>x\<in>set xs. c' = Some x \<and> d' = distanceTo qt q (lat x, lon x)))"
proof (induction xs arbitrary: c d)
  case Nil
  then show ?case by simp
next
  case (Cons a xs)
  let ?da = "distanceTo qt q (lat a, lon a)"
  show ?case
  proof (cases "?da < d")
    case True
    with Cons.prems have "closestLoop qt q xs (Some a, ?da) = (c', d')" by (simp add: Let_def)
    from Cons.IH [OF this] True show ?thesis by auto
  next
    case False
    with Cons.prems have "closestLoop qt q xs (c, d) = (c', d')" by (simp add: Let_def)
    from Cons.IH [OF this] False show ?thesis by auto
  qed
qed

lemma closestLoop_found:
  assumes "xs \<noteq> []" and "\<forall>x\<in>set xs. distanceTo qt q (lat x, lon x) < DBL_MAX"
  shows "\<exists>c\<in>set xs. fst (closestLoop qt q xs (None, DBL_MAX)) = Some c
           \<and> (\<forall>x\<in>set xs. distanceTo qt q (lat c, lon c) \<le> distanceTo qt q (lat x, lon x))"
proof -
  obtain c' d' where res: "closestLoop qt q xs (None, DBL_MAX) = (c', d')"
    by (cases "closestLoop qt q xs (None, DBL_MAX)")
  from closestLoop_inv [OF res]
  have le: "\<forall>x\<in>set xs. d' \<le> distanceTo qt q (lat x, lon x)"
    and alt: "(c', d') = (None, DBL_MAX) \<or> (\<exists>x\<in>set xs. c' = Some x \<and> d' = distanceTo qt q (lat x, lon x))"
    by auto
  from assms obtain x0 where x0: "x0 \<in> set xs" "distanceTo qt q (lat x0, lon x0) < DBL_MAX"
    by (cases xs) auto
  with le have "d' < DBL_MAX" by fastforce
  with alt obtain x where "x \<in> set xs" "c' = Some x" "d' = distanceTo qt q (lat x, lon x)"
    by auto
  with le res show ?thesis by auto
qed

lemma DBL_MAX_big: "100 < DBL_MAX"
proof -
  have "(100::real) \<le> 1 * 2 ^ 7" by simp
  also have "\<dots> \<le> (2 ^ 53 - 1) * 2 ^ 971"
    by (intro mult_mono power_increasing) auto
  finally show ?thesis by (simp add: DBL_MAX_def)
qed

text \<open>
  Claim C3. Let the geocoding reply carry a result, the catalogue be non-empty and no
  station's normalised city equal the normalised query. Then the searched list holds exactly
  one station, a copy of a catalogue station flagged \<^verbatim>\<open>isSearched\<close>; no catalogue station is
  nearer to the query coordinate; the map centre is that station's coordinate; and in the
  catalogue exactly the stations with its id are flagged. The distance is Qt's
  \<^verbatim>\<open>QGeoCoordinate::distanceTo\<close>, whose values (at most half the Earth's circumference, in
  metres) lie below the initial \<^verbatim>\<open>minDistance\<close>.
\<close>

theorem nearest_station_fallback:
  assumes nonempty: "m_allStations s \<noteq> []"
    and nomatch: "\<forall>st\<in>set (m_allStations s).
                    simplified qt (toLower qt (cityName st)) \<noteq> simplified qt (toLower qt city)"
    and bounded: "\<forall>st\<in>set (m_allStations s).
                    distanceTo qt (toDouble qt (geo_lat r), toDouble qt (geo_lon r)) (lat st, lon st) < DBL_MAX"
  shows "\<exists>c\<in>set (m_allStations s).
           m_stations (onGeocodeReply qt (NoError (r # rs)) city s) = [c\<lparr>isSearched := True\<rparr>]
         \<and> (\<forall>st\<in>set (m_allStations s).
               distanceTo qt (toDouble qt (geo_lat r), toDouble qt (geo_lon r)) (lat c, lon c)
                 \<le> distanceTo qt (toDouble qt (geo_lat r), toDouble qt (geo_lon r)) (lat st, lon st))
         \<and> m_mapCenter (onGeocodeReply qt (NoError (r # rs)) city s) = (lat c, lon c)
         \<and> (\<forall>st\<in>set (m_allStations (onGeocodeReply qt (NoError (r # rs)) city s)).
               isSearched st \<longleftrightarrow> stationId st = stationId c)"
proof -
  let ?q = "(toDouble qt (geo_lat r), toDouble qt (geo_lon r))"
  let ?reset = "map (\<lambda>station. station\<lparr>isSearched := False\<rparr>) (m_allStations s)"
  let ?s3 = "s\<lparr>m_mapCenter := ?q, m_stations := [], m_allStations := ?reset\<rparr>"
  have nm: "\<forall>st\<in>set ?reset. simplified qt (toLower qt (cityName st)) \<noteq> simplified qt (toLower qt city)"
    using nomatch by auto
  have s4: "exactMatches qt (simplified qt (toLower qt city)) ?reset ?s3 = ?s3"
    by (rule exactMatches_none [OF nm])
  have "?reset \<noteq> []" using nonempty by simp
  moreover have "\<forall>x\<in>set ?reset. distanceTo qt ?q (lat x, lon x) < DBL_MAX"
    using bounded by auto
  ultimately obtain c where c: "c \<in> set ?reset"
      "fst (closestLoop qt ?q ?reset (None, DBL_MAX)) = Some c"
      "\<forall>x\<in>set ?reset. distanceTo qt ?q (lat c, lon c) \<le> distanceTo qt ?q (lat x, lon x)"
    using closestLoop_found [of ?reset qt ?q] by blast
  from c(1) obtain c0 where c0: "c0 \<in> set (m_allStations s)" "c = c0\<lparr>isSearched := False\<rparr>"
    by auto
  have res: "onGeocodeReply qt (NoError (r # rs)) city s =
      (updateStationSearchStatus (stationId c) True (?s3\<lparr>m_stations := [c\<lparr>isSearched := True\<rparr>]\<rparr>))
        \<lparr>m_mapCenter := (lat c, lon c),
         m_status := ''Nie znaleziono stacji w '' @ city @ ''. Najbli''
            @ [CHR 0xC5, CHR 0xBC] @ ''sza stacja znajduje si'' @ [CHR 0xC4, CHR 0x99]
            @ '' w '' @ cityName c @ ''.''\<rparr>"
    using s4 c(2) by (simp add: onGeocodeReply_def Let_def)
  have "m_stations (onGeocodeReply qt (NoError (r # rs)) city s) = [c0\<lparr>isSearched := True\<rparr>]"
    using c0 by (simp add: res updateStationSearchStatus_def)
  moreover have "\<forall>st\<in>set (m_allStations s).
      distanceTo qt ?q (lat c0, lon c0) \<le> distanceTo qt ?q (lat st, lon st)"
    using c(3) c0 by auto
  moreover have "m_mapCenter (onGeocodeReply qt (NoError (r # rs)) city s) = (lat c0, lon c0)"
    using c0 by (simp add: res updateStationSearchStatus_def)
  moreover have "\<forall>st\<in>set (m_allStations (onGeocodeReply qt (NoError (r # rs)) city s)).
      isSearched st \<longleftrightarrow> stationId st = stationId c0"
    using c0 by (auto simp: res updateStationSearchStatus_def)
  ultimately show ?thesis using c0(1) by blast
qed

theorem nearest_station_witness:
  "m_allStations window0 = [warszawa, krakow]
   \<and> simplified qt0 (toLower qt0 (cityName warszawa)) \<noteq> simplified qt0 (toLower qt0 ''Gdansk'')
   \<and> simplified qt0 (toLower qt0 (cityName krakow)) \<noteq> simplified qt0 (toLower qt0 ''Gdansk'')
   \<and> distanceTo qt0 (toDouble qt0 (geo_lat geo0), toDouble qt0 (geo_lon geo0)) (lat warszawa, lon warszawa) < DBL_MAX
   \<and> distanceTo qt0 (toDouble qt0 (geo_lat geo0), toDouble qt0 (geo_lon geo0)) (lat krakow, lon krakow) < DBL_MAX
   \<and> m_stations (onGeocodeReply qt0 (NoError [geo0]) ''Gdansk'' window0) = [krakow\<lparr>isSearched := True\<rparr>]
   \<and> m_mapCenter (onGeocodeReply qt0 (NoError [geo0]) ''Gdansk'' window0) = (lat krakow, lon krakow)"
proof -
  let ?q = "(toDouble qt0 (geo_lat geo0), toDouble qt0 (geo_lon geo0))"
  have all: "m_allStations window0 = [warszawa, krakow]"
    by (simp add: window0_def)
  have h1: "m_allStations window0 \<noteq> []"
    by (simp add: all)
  have c1: "simplified qt0 (toLower qt0 (cityName warszawa)) \<noteq> simplified qt0 (toLower qt0 ''Gdansk'')"
    and c2: "simplified qt0 (toLower qt0 (cityName krakow)) \<noteq> simplified qt0 (toLower qt0 ''Gdansk'')"
    by (simp_all add: warszawa_def krakow_def qt0_def)
  have d1: "distanceTo qt0 ?q (lat warszawa, lon warszawa) < DBL_MAX"
    and d2: "distanceTo qt0 ?q (lat krakow, lon krakow) < DBL_MAX"
    using DBL_MAX_big by (simp_all add: warszawa_def krakow_def qt0_def geo0_def)
  have far: "\<not> distanceTo qt0 ?q (lat warszawa, lon warszawa) \<le> distanceTo qt0 ?q (lat krakow, lon krakow)"
    by (simp add: warszawa_def krakow_def qt0_def geo0_def)
  have h2: "\<forall>st\<in>set (m_allStations window0).
         simplified qt0 (toLower qt0 (cityName st)) \<noteq> simplified qt0 (toLower qt0 ''Gdansk'')"
    using c1 c2 by (simp add: all)
  have h3: "\<forall>st\<in>set (m_allStations window0). distanceTo qt0 ?q (lat st, lon st) < DBL_MAX"
    using d1 d2 by (simp add: all)
  from nearest_station_fallback [OF h1 h2 h3, of "[]"]
  obtain c where c: "c \<in> set (m_allStations window0)"
      "m_stations (onGeocodeReply qt0 (NoError [geo0]) ''Gdansk'' window0) = [c\<lparr>isSearched := True\<rparr>]"
      "\<forall>st\<in>set (m_allStations window0).
          distanceTo qt0 ?q (lat c, lon c) \<le> distanceTo qt0 ?q (lat st, lon st)"
      "m_mapCenter (onGeocodeReply qt0 (NoError [geo0]) ''Gdansk'' window0) = (lat c, lon c)"
    by blast
  from c(1,3) far have "c = krakow"
    by (auto simp: all)
  with c(2,4) all c1 c2 d1 d2 show ?thesis
    by simp
qed

lemma nearest_station_example:
  "m_stations (onGeocodeReply qt0 (NoError [geo0]) ''Gdansk'' window0) = [krakow\<lparr>isSearched := True\<rparr>]
   \<and> m_mapCenter (onGeocodeReply qt0 (NoError [geo0]) ''Gdansk'' window0) = (50.06, 19.94)"
  using DBL_MAX_big
  by (simp add: onGeocodeReply_def Let_def window0_def warszawa_def krakow_def qt0_def geo0_def
        updateStationSearchStatus_def)

section \<open>Properties of the station dialog\<close>

subsection \<open>The path of a series\<close>

lemma plotLoop_points:
  "plotLoop w h gmin gmax n ps i fp =
     (if fp then path_of (map (\<lambda>(j, p). (xPos w n j, yPos h gmin gmax (the (val p))))
                  (filter (\<lambda>(j, p). valid p) (enumerate i ps)))
      else map (\<lambda>q. LineTo (fst q) (snd q)) (map (\<lambda>(j, p). (xPos w n j, yPos h gmin gmax (the (val p))))
                  (filter (\<lambda>(j, p). valid p) (enumerate i ps))))"
proof (induction ps arbitrary: i fp)
  case Nil
  then show ?case by (simp add: path_of_def)
next
  case (Cons p ps)
  show ?case
  proof (cases "valid p")
    case True
    then obtain v where v: "val p = Some v" "v \<noteq> NaN"
      by (auto simp: valid_def split: option.splits)
    with True show ?thesis
      by (simp add: Cons.IH isNaN_def path_of_def)
  next
    case False
    then have "val p = None \<or> val p = Some NaN"
      by (auto simp: valid_def split: option.splits)
    with False show ?thesis
      by (auto simp: Cons.IH isNaN_def)
  qed
qed

lemma plotSeries_path: "plotSeries w h gmin gmax data = path_of (validPoints w h gmin gmax data)"
  by (simp add: plotSeries_def validPoints_def plotLoop_points)

lemma plotSeries_path_fun:
  "plotSeries w h gmin gmax = (\<lambda>data. path_of (validPoints w h gmin gmax data))"
  by (rule ext) (rule plotSeries_path)

lemma segments_from_lines:
  "segments_from (Some p) (map (\<lambda>q. LineTo (fst q) (snd q)) ps) = zip (p # ps) ps"
  by (induction ps arbitrary: p) auto

lemma segments_path_of: "segments (path_of pts) = zip pts (tl pts)"
  by (cases pts) (simp_all add: segments_def path_of_def segments_from_lines)

text \<open>
  Claim C1, as amended. A sample whose value is \<^verbatim>\<open>null\<close> or NaN contributes no point to the
  path of its series. The path is one \<^verbatim>\<open>moveTo\<close> to the first valid sample followed by a
  \<^verbatim>\<open>lineTo\<close> to every later valid sample, so its segments join each valid sample to the next
  valid sample, also where invalid samples lie between the two.
\<close>

theorem valid_samples_joined_in_order:
  "plotSeries w h gmin gmax data = path_of (validPoints w h gmin gmax data)
   \<and> segments (plotSeries w h gmin gmax data)
       = zip (validPoints w h gmin gmax data) (tl (validPoints w h gmin gmax data))"
  by (simp add: plotSeries_path segments_path_of)

text \<open>
  The claim as stated fails on a series of three samples whose middle value is \<^verbatim>\<open>null\<close>: the
  path has a single segment, from the first sample to the third.
\<close>

theorem gap_is_bridged_counterexample:
  "valid (gap_series ! 0) \<and> \<not> valid (gap_series ! 1) \<and> valid (gap_series ! 2)
   \<and> segments (plotSeries 100 100 (Fin 10) (Fin 20) gap_series)
       = [((xPos 100 3 0, yPos 100 (Fin 10) (Fin 20) (Fin 10)), (xPos 100 3 2, yPos 100 (Fin 10) (Fin 20) (Fin 20)))]
   \<and> plotSeries 100 100 (Fin 10) (Fin 20) gap_series = [MoveTo (Fin 0) (Fin 100), LineTo (Fin 100) (Fin 0)]"
  by (simp add: gap_series_def valid_def plotSeries_def isNaN_def segments_def xPos_def yPos_def js_sub_def)

subsection \<open>Positions of the plotted samples\<close>

lemma xPos_ge2: "2 \<le> n \<Longrightarrow> xPos w n i = Fin (real i / (real n - 1) * w)"
  by (simp add: xPos_def js_sub_def)






subsection \<open>Binary64 rounding\<close>

lemma round_half_even_int [simp]: "round_half_even (of_int m) = m"
  by (simp add: round_half_even_def)

lemma f64_round_exact:
  assumes "x = of_int m * 2 powi f64_exponent x"
  shows "f64_round x = (if DBL_MAX < \<bar>x\<bar> then inf_of_sign x else Fin x)"
proof (cases "x = 0")
  case True
  then show ?thesis by (simp add: f64_round_def DBL_MAX_def)
next
  case False
  have pos: "(2::real) powi f64_exponent x \<noteq> 0" by simp
  have "x / 2 powi f64_exponent x = of_int m"
    using assms pos by (metis nonzero_mult_div_cancel_right)
  then show ?thesis
    using False assms by (simp add: f64_round_def Let_def)
qed

lemma floor_log2_bounds:
  assumes "2 powi k \<le> \<bar>x\<bar>" and "\<bar>x\<bar> < 2 powi (k + 1)"
  shows "\<lfloor>log 2 \<bar>x\<bar>\<rfloor> = k"
proof -
  have pos: "0 < \<bar>x\<bar>"
    using assms(1) by (smt (verit) zero_less_power_int)
  have "(2::real) powr real_of_int k = 2 powi k" "(2::real) powr (real_of_int k + 1) = 2 powi (k + 1)"
    using powr_real_of_int' [of 2 k] powr_real_of_int' [of 2 "k + 1"] by simp_all
  with assms show ?thesis
    using floor_log_eq_powr_iff [of "\<bar>x\<bar>" 2 k] pos by simp
qed

lemma f64_round_int:
  assumes "\<bar>n\<bar> < 2 ^ 53"
  shows "f64_round (of_int n) = Fin (of_int n)"
proof (cases "n = 0")
  case True
  then show ?thesis by (simp add: f64_round_def)
next
  case False
  define x :: real where "x = of_int n"
  define k where "k = \<lfloor>log 2 \<bar>x\<bar>\<rfloor>"
  have x1: "1 \<le> \<bar>x\<bar>" using False by (simp add: x_def)
  have x53: "\<bar>x\<bar> < 2 ^ 53"
  proof -
    have "real_of_int \<bar>n\<bar> < real_of_int (2 ^ 53)" using assms by (simp only: of_int_less_iff)
    then show ?thesis by (simp add: x_def)
  qed
  have k0: "0 \<le> k"
    using x1 by (simp add: k_def)
  have "log 2 \<bar>x\<bar> < 53"
    using x1 x53 by (simp add: log_less_iff)
  then have k52: "k \<le> 52"
    unfolding k_def by (simp add: floor_le_iff)
  have e: "f64_exponent x = k - 52"
    using k0 by (simp add: f64_exponent_def k_def)
  have one: "(2::real) powi (k - 52) * 2 ^ nat (52 - k) = 1"
    using k52 by (simp add: power_int_def flip: power_mult_distrib)
  have "of_int (n * 2 ^ nat (52 - k)) * 2 powi (k - 52) = x * (2 powi (k - 52) * 2 ^ nat (52 - k))"
    by (simp add: x_def)
  also have "\<dots> = x" by (simp only: one mult_1_right)
  finally have "x = of_int (n * 2 ^ nat (52 - k)) * 2 powi f64_exponent x"
    by (simp only: e)
  from f64_round_exact [OF this] x53 show ?thesis
    by (simp add: x_def DBL_MAX_def)
qed

lemma DBL_MAX_pos: "0 < DBL_MAX"
  by (simp add: DBL_MAX_def)

lemma f64_round_overflow: "f64_round (2 * DBL_MAX) = PInf"
proof -
  define x :: real where "x = 2 * DBL_MAX"
  have x: "x = (2 ^ 53 - 1) * 2 ^ 972"
    by (simp add: x_def DBL_MAX_def)
  have lo: "2 powi 1024 \<le> \<bar>x\<bar>" and hi: "\<bar>x\<bar> < 2 powi (1024 + 1)"
    by (simp_all add: x)
  have e: "f64_exponent x = 972"
    using floor_log2_bounds [OF lo hi] by (simp add: f64_exponent_def)
  have "x = of_int (2 ^ 53 - 1) * 2 powi f64_exponent x"
    unfolding e by (simp add: x)
  from f64_round_exact [OF this] DBL_MAX_pos show ?thesis
    by (simp add: x_def inf_of_sign_def)
qed

lemma f64_round_numeral: "numeral w < (2::int) ^ 53 \<Longrightarrow> f64_round (numeral w) = Fin (numeral w)"
  using f64_round_int [of "numeral w"] by simp

lemma f64_round_0: "f64_round 0 = Fin 0"
  by (simp add: f64_round_def)

lemma f64_round_1: "f64_round 1 = Fin 1"
  using f64_round_int [of 1] by simp

lemma f64_round_not_NaN: "f64_round x \<noteq> NaN"
  by (simp add: f64_round_def Let_def inf_of_sign_def)

lemma f64_mul_Fin: "f64_mul (Fin a) (Fin b) \<noteq> NaN"
  by (simp add: f64_mul_def f64_def f64_round_not_NaN)

lemma f64_div_5: "x \<noteq> NaN \<Longrightarrow> f64_div x (Fin 5) \<noteq> NaN"
  by (cases x) (simp_all add: f64_div_def f64_def f64_round_not_NaN inf_of_sign_def)

lemma f64_add_Fin: "y \<noteq> NaN \<Longrightarrow> f64_add (Fin a) y \<noteq> NaN"
  by (cases y) (simp_all add: f64_add_def f64_def f64_round_not_NaN)

lemmas f64_eval = f64_add_def f64_sub_def f64_mul_def f64_div_def f64_def js_sub_def
  f64_round_numeral f64_round_0 f64_round_1

subsection \<open>The time-label loop\<close>

lemma split_no_separator: "c \<notin> set s \<Longrightarrow> split c s = [s]"
  by (induction s) auto

lemma split_separator: "c \<in> set s \<Longrightarrow> \<exists>a b bs. split c s = a # b # bs"
proof (induction s)
  case Nil
  then show ?case by simp
next
  case (Cons x xs)
  show ?case
  proof (cases "x = c")
    case True
    then show ?thesis
      by (cases xs) (auto split: list.splits)
  next
    case False
    with Cons obtain a b bs where "split c xs = a # b # bs" by auto
    with False show ?thesis by simp
  qed
qed

lemma timeLabelLoop_None: "timeLabelLoop tps = None \<longleftrightarrow> (\<forall>tp\<in>set tps. CHR '' '' \<in> set tp)"
proof (induction tps)
  case Nil
  then show ?case by simp
next
  case (Cons tp tps)
  show ?case
  proof (cases "CHR '' '' \<in> set tp")
    case True
    from split_separator [OF this] obtain a b bs where "split (CHR '' '') tp = a # b # bs"
      by blast
    with True Cons show ?thesis by simp
  next
    case False
    from split_no_separator [OF this] False show ?thesis by simp
  qed
qed

subsection \<open>The time axis and the selection\<close>

lemma scanSensors_later: "0 < i \<Longrightarrow> snd (scanSensors sd i ids (r, tp)) = tp"
  by (induction ids arbitrary: i r) (auto split: option.splits)

lemma scanSensors_first:
  "snd (scanSensors sd 0 (k # ks) (r, tp))
     = tp @ (case sensorData_at sd k of None \<Rightarrow> [] | Some d \<Rightarrow> map date d)"
  by (simp add: scanSensors_later split: option.splits)

lemma onPaint_first_key:
  assumes keys: "Object_keys selectedSensors = k0 # ks"
    and entry: "sensorData_at sensorData k0 = Some data0"
    and nonempty: "data0 \<noteq> []"
  shows "\<exists>ch. onPaint ts w h selectedSensors sensorData = Drawn ch
           \<and> timePoints ch = map date data0
           \<and> strokes ch
               = map (\<lambda>(color, sid).
                        (color, map_option (\<lambda>data. path_of (validPoints w h (globalMinValue ch) (globalMaxValue ch) data))
                                  (sensorData_at sensorData sid)))
                   (zip colors (k0 # ks))
           \<and> length (strokes ch) = min 6 (length (k0 # ks))"
proof -
  obtain gmax0 gmin0 tps where scan:
    "scanSensors sensorData 0 (k0 # ks) ((js_neg Number_MAX_VALUE, Number_MAX_VALUE), []) = ((gmax0, gmin0), tps)"
    by (metis surj_pair)
  have tps: "tps = map date data0"
    using scanSensors_first [of sensorData k0 ks "(js_neg Number_MAX_VALUE, Number_MAX_VALUE)" "[]"]
    unfolding scan entry by simp
  have ne: "sensorData \<noteq> Map.empty"
    using entry by (auto simp: sensorData_at_def)
  have tne: "tps \<noteq> []"
    using tps nonempty by simp
  let ?gmax = "if strict_eq gmax0 gmin0 then f64_add gmax0 (Fin 1) else gmax0"
  let ?gmin = "if strict_eq gmax0 gmin0 then f64_sub gmin0 (Fin 1) else gmin0"
  let ?ch = "\<lparr>timePoints = tps, globalMinValue = ?gmin, globalMaxValue = ?gmax,
              strokes = plotAll w h ?gmin ?gmax sensorData (k0 # ks),
              valueLabels = (case timeLabelLoop tps of
                               Some e \<Rightarrow> Inl e
                             | None \<Rightarrow> Inr (valueAxisLabels ts h ?gmin ?gmax))\<rparr>"
  have res: "onPaint ts w h selectedSensors sensorData = Drawn ?ch"
    using ne tne by (simp add: onPaint_def keys scan Let_def del: scanSensors.simps)
  have st: "strokes ?ch
      = map (\<lambda>(color, sid).
               (color, map_option (\<lambda>data. path_of (validPoints w h (globalMinValue ?ch) (globalMaxValue ?ch) data))
                         (sensorData_at sensorData sid)))
          (zip colors (k0 # ks))"
    by (simp add: plotAll_def plotSeries_path_fun)
  have len: "length (strokes ?ch) = min 6 (length (k0 # ks))"
    by (simp add: plotAll_def colors_def)
  have "timePoints ?ch = map date data0"
    by (simp add: tps)
  with res st len show ?thesis
    by blast
qed

lemma Object_keys_indices:
  "\<forall>k\<in>set (map fst obj). isArrayIndex k \<Longrightarrow> Object_keys obj = sort (map fst obj)"
proof -
  assume a: "\<forall>k\<in>set (map fst obj). isArrayIndex k"
  then have "filter isArrayIndex (map fst obj) = map fst obj"
    by (simp add: filter_id_conv)
  moreover from a have "filter (\<lambda>k. \<not> isArrayIndex k) (map fst obj) = []"
    by (simp add: filter_empty_conv)
  ultimately show ?thesis by (simp add: Object_keys_def)
qed

lemma QString_number_2: "QString_number 2 = ''2''"
  by code_simp

lemma QString_number_5: "QString_number 5 = ''5''"
  by code_simp

lemma selectedAB_list: "selectedAB = [(5, ''PM10''), (2, ''NO2'')]"
  by (simp add: selectedAB_def onCheckedChanged_def sensorA_def sensorB_def)

lemma selectedAB_keys: "Object_keys selectedAB = [2, 5]"
  by (simp add: selectedAB_list Object_keys_def isArrayIndex_def)

lemma storeAB_at: "sensorData_at storeAB 2 = Some seriesB \<and> sensorData_at storeAB 5 = Some seriesA"
  by (simp add: storeAB_def sensorData_at_def QString_number_2 QString_number_5)

text \<open>
  Claim C5, as amended. Let \<open>k0\<close> be the first key of \<^verbatim>\<open>Object.keys(selectedSensors)\<close>, which
  for sensor ids that are array indices is the smallest selected id, and let the store hold a
  non-empty series for it. Then the chart is drawn, its time points are exactly the dates of
  that series, and the sensors stroked are the first six keys in that order: each of them
  that has data is drawn along the points of its own valid samples, the sample at index \<open>i\<close>
  of \<open>n \<ge> 2\<close> at \<open>i / (n - 1)\<close> of the width, whatever the lengths of the other series.
\<close>

theorem time_axis_of_first_key:
  assumes keys: "Object_keys selectedSensors = k0 # ks"
    and entry: "sensorData_at sensorData k0 = Some data0"
    and nonempty: "data0 \<noteq> []"
  shows "\<exists>ch. onPaint ts w h selectedSensors sensorData = Drawn ch
           \<and> timePoints ch = map date data0
           \<and> strokes ch
               = map (\<lambda>(color, sid).
                        (color, map_option (\<lambda>data. path_of (validPoints w h (globalMinValue ch) (globalMaxValue ch) data))
                                  (sensorData_at sensorData sid)))
                   (zip colors (k0 # ks))
           \<and> length (strokes ch) = min 6 (length (k0 # ks))
           \<and> (\<forall>n i. 2 \<le> n \<longrightarrow> xPos w n i = Fin (real i / (real n - 1) * w))
           \<and> ((\<forall>k\<in>set (map fst selectedSensors). isArrayIndex k)
                \<longrightarrow> k0 # ks = sort (map fst selectedSensors))"
proof -
  have keys_sorted: "(\<forall>k\<in>set (map fst selectedSensors). isArrayIndex k)
                \<longrightarrow> k0 # ks = sort (map fst selectedSensors)"
    using Object_keys_indices [of selectedSensors] keys by auto
  from onPaint_first_key [OF keys entry nonempty, of ts w h] keys_sorted xPos_ge2
  show ?thesis by blast
qed

theorem time_axis_witness:
  "Object_keys selectedAB = [2, 5] \<and> sensorData_at storeAB 2 = Some seriesB \<and> seriesB \<noteq> []
   \<and> isArrayIndex 5 \<and> isArrayIndex 2 \<and> 2 \<le> length seriesB
   \<and> map_option timePoints (drawn (onPaint ts0 100 100 selectedAB storeAB)) = Some (map date seriesB)
   \<and> map_option (\<lambda>ch. length (strokes ch)) (drawn (onPaint ts0 100 100 selectedAB storeAB)) = Some 2
   \<and> xPos 100 (length seriesB) 1 = Fin 25"
proof -
  have keys: "Object_keys selectedAB = 2 # [5]"
    by (rule selectedAB_keys)
  have entry: "sensorData_at storeAB 2 = Some seriesB"
    by (simp add: storeAB_at)
  have nonempty: "seriesB \<noteq> []" and len: "length seriesB = 5"
    by (simp_all add: seriesB_def)
  have idx: "isArrayIndex 5" "isArrayIndex 2"
    by (simp_all add: isArrayIndex_def)
  from time_axis_of_first_key [OF keys entry nonempty, of ts0 100 100]
  obtain ch where ch: "onPaint ts0 100 100 selectedAB storeAB = Drawn ch"
      "timePoints ch = map date seriesB" "length (strokes ch) = min 6 (length [2, 5::int])"
      "\<forall>n i. 2 \<le> n \<longrightarrow> xPos 100 n i = Fin (real i / (real n - 1) * 100)"
    by blast
  from ch(4) have "(2::nat) \<le> 5 \<longrightarrow> xPos 100 5 1 = Fin (real 1 / (real 5 - 1) * 100)"
    by blast
  then have x: "xPos 100 (length seriesB) 1 = Fin 25"
    by (simp add: len)
  from ch(1,2,3) x keys entry nonempty idx len show ?thesis
    by (simp add: drawn_def)
qed

text \<open>
  The claim as stated fails when the sensor ticked first has the larger id: with sensor 5
  (three samples) ticked before sensor 2 (five samples), the time points are the five dates
  of sensor 2.
\<close>

theorem first_selected_counterexample:
  "selectedAB = [(5, ''PM10''), (2, ''NO2'')]
   \<and> sensorData_at storeAB 5 = Some seriesA \<and> length seriesA = 3
   \<and> sensorData_at storeAB 2 = Some seriesB \<and> length seriesB = 5
   \<and> map_option timePoints (drawn (onPaint ts0 100 100 selectedAB storeAB)) = Some (map date seriesB)
   \<and> map_option (\<lambda>ch. length (timePoints ch)) (drawn (onPaint ts0 100 100 selectedAB storeAB)) = Some 5
   \<and> map date seriesB \<noteq> map date seriesA"
proof -
  have keys: "Object_keys selectedAB = 2 # [5]"
    by (rule selectedAB_keys)
  have entry: "sensorData_at storeAB 2 = Some seriesB"
    by (simp add: storeAB_at)
  have nonempty: "seriesB \<noteq> []" and len: "length seriesB = 5" "length seriesA = 3"
    by (simp_all add: seriesB_def seriesA_def)
  from onPaint_first_key [OF keys entry nonempty, of ts0 100 100]
  obtain ch where ch: "onPaint ts0 100 100 selectedAB storeAB = Drawn ch"
      "timePoints ch = map date seriesB"
    by blast
  have "map date seriesB \<noteq> map date seriesA"
    by (simp add: seriesA_def seriesB_def)
  with ch len selectedAB_list storeAB_at show ?thesis
    by (simp add: drawn_def)
qed

subsection \<open>Labels of the value axis\<close>

lemma upt_6: "[0 ..< 6] = [0, 1, 2, 3, 4, 5]"
  by code_simp

lemma onPaint_valueLabels:
  "onPaint ts w h selectedSensors sensorData = Drawn ch \<Longrightarrow>
     valueLabels ch =
       (case timeLabelLoop (timePoints ch) of
          Some e \<Rightarrow> Inl e
        | None \<Rightarrow> Inr (valueAxisLabels ts h (globalMinValue ch) (globalMaxValue ch)))"
  by (auto simp: onPaint_def Let_def split: if_splits prod.splits option.splits)

lemma tickValue_not_NaN:
  "f64_sub gmax (Fin a) = Fin d \<Longrightarrow> tickValue (Fin a) gmax i \<noteq> NaN"
  by (simp add: tickValue_def f64_add_Fin f64_div_5 f64_mul_Fin)

lemma tickValue_0: "f64_sub gmax (Fin a) = Fin d \<Longrightarrow> tickValue (Fin a) gmax 0 = f64_round a"
  by (simp add: tickValue_def f64_eval)

lemma valueAxisLabels_six:
  assumes "f64_sub gmax (Fin a) = Fin d"
  shows "valueAxisLabels ts h (Fin a) gmax =
     [(toFixed ts 1 (tickValue (Fin a) gmax 0), Fin 10, Fin (h - 5)),
      (toFixed ts 1 (tickValue (Fin a) gmax 1), Fin 10, Fin (h - h / 5 - 5)),
      (toFixed ts 1 (tickValue (Fin a) gmax 2), Fin 10, Fin (h - 2 * h / 5 - 5)),
      (toFixed ts 1 (tickValue (Fin a) gmax 3), Fin 10, Fin (h - 3 * h / 5 - 5)),
      (toFixed ts 1 (tickValue (Fin a) gmax 4), Fin 10, Fin (h - 4 * h / 5 - 5)),
      (toFixed ts 1 (tickValue (Fin a) gmax 5), Fin 10, Fin (- 5))]"
  using tickValue_not_NaN [OF assms]
  by (simp add: valueAxisLabels_def upt_6 js_sub_def isNaN_def Let_def)

lemma selected2_keys: "Object_keys selected2 = [2]"
  by (simp add: selected2_def onCheckedChanged_def sensorB_def Object_keys_def isArrayIndex_def)

lemma toFixed_ticks:
  "toFixed ts0 1 (Fin 0) = ''0.0''" "toFixed ts0 1 (Fin 1) = ''1.0''" "toFixed ts0 1 (Fin 2) = ''2.0''"
  "toFixed ts0 1 (Fin 3) = ''3.0''" "toFixed ts0 1 (Fin 4) = ''4.0''" "toFixed ts0 1 (Fin 5) = ''5.0''"
  "toFixed ts0 1 PInf = ''Infinity''"
  by code_simp+

lemma scan05:
  "scanSensors store05 0 [2] ((js_neg Number_MAX_VALUE, Number_MAX_VALUE), [])
     = ((Fin 5, Fin 0), [''2025-01-01 01:00:00'', ''2025-01-01 00:00:00''])"
  using DBL_MAX_big
  by (simp add: store05_def series05_def sensorData_at_def Number_MAX_VALUE_def isNaN_def)

lemma ticks05:
  "tickValue (Fin 0) (Fin 5) 0 = Fin 0" "tickValue (Fin 0) (Fin 5) 1 = Fin 1"
  "tickValue (Fin 0) (Fin 5) 2 = Fin 2" "tickValue (Fin 0) (Fin 5) 3 = Fin 3"
  "tickValue (Fin 0) (Fin 5) 4 = Fin 4" "tickValue (Fin 0) (Fin 5) 5 = Fin 5"
  by (simp_all add: tickValue_def f64_eval)

lemma onPaint05: "onPaint ts0 100 100 selected2 store05 = Drawn chart05"
proof -
  have ne: "store05 \<noteq> Map.empty"
    by (simp add: store05_def)
  have tl: "timeLabelLoop [''2025-01-01 01:00:00'', ''2025-01-01 00:00:00''] = None"
    by (simp add: timeLabelLoop_None)
  have pl: "plotAll 100 100 (Fin 0) (Fin 5) store05 [2]
      = [(''#4CAF50'', Some [MoveTo (Fin 0) (Fin 0), LineTo (Fin 100) (Fin 100)])]"
    by (simp add: plotAll_def colors_def store05_def sensorData_at_def series05_def plotSeries_def
          isNaN_def xPos_def yPos_def js_sub_def)
  have "f64_sub (Fin 5) (Fin 0) = Fin 5"
    by (simp add: f64_eval)
  note six = valueAxisLabels_six [OF this, of ts0 100, unfolded ticks05 toFixed_ticks]
  have vl: "valueAxisLabels ts0 100 (Fin 0) (Fin 5)
      = [(''0.0'', Fin 10, Fin 95), (''1.0'', Fin 10, Fin 75), (''2.0'', Fin 10, Fin 55),
         (''3.0'', Fin 10, Fin 35), (''4.0'', Fin 10, Fin 15), (''5.0'', Fin 10, Fin (- 5))]"
    using six by simp
  show ?thesis
    using ne
    by (simp add: onPaint_def selected2_keys scan05 strict_eq_def tl pl vl chart05_def Let_def
          del: scanSensors.simps)
qed

text \<open>
  Claim C7, as amended. Let the handler draw the chart to its end, which it does when every
  time point has a time part after a space, and let the bounds of the chart be finite with
  \<open>globalMin < globalMax\<close> and a difference \<open>globalMax - globalMin\<close> that does not overflow.
  Then the value axis carries exactly six labels, at the heights \<open>h - i \<sdot> h / 5 - 5\<close> for
  \<open>i = 0, \<dots>, 5\<close>, with the values \<open>globalMin + i \<sdot> (globalMax - globalMin) / 5\<close>, every
  operation rounded to binary64, the first of them \<open>globalMin\<close>; each value is formatted by
  \<^verbatim>\<open>toFixed(1)\<close>, that is to one decimal place.
\<close>

theorem value_axis_labels:
  assumes drawn: "onPaint ts w h selectedSensors sensorData = Drawn ch"
    and times: "\<forall>tp\<in>set (timePoints ch). CHR '' '' \<in> set tp"
    and bounds: "globalMinValue ch = Fin a" "globalMaxValue ch = Fin b" "a < b"
    and diff: "f64_round (b - a) = Fin d"
  shows "valueLabels ch =
           Inr [(toFixed ts 1 (tickValue (Fin a) (Fin b) 0), Fin 10, Fin (h - 5)),
                (toFixed ts 1 (tickValue (Fin a) (Fin b) 1), Fin 10, Fin (h - h / 5 - 5)),
                (toFixed ts 1 (tickValue (Fin a) (Fin b) 2), Fin 10, Fin (h - 2 * h / 5 - 5)),
                (toFixed ts 1 (tickValue (Fin a) (Fin b) 3), Fin 10, Fin (h - 3 * h / 5 - 5)),
                (toFixed ts 1 (tickValue (Fin a) (Fin b) 4), Fin 10, Fin (h - 4 * h / 5 - 5)),
                (toFixed ts 1 (tickValue (Fin a) (Fin b) 5), Fin 10, Fin (- 5))]
       \<and> (\<forall>i. tickValue (Fin a) (Fin b) i
                = f64_add (Fin a) (f64_div (f64_mul (Fin (real i)) (Fin d)) (Fin 5)))
       \<and> (\<forall>i. tickValue (Fin a) (Fin b) i \<noteq> NaN)
       \<and> tickValue (Fin a) (Fin b) 0 = f64_round a"
proof -
  have sub: "f64_sub (Fin b) (Fin a) = Fin d"
    using diff by (simp add: f64_sub_def f64_def js_sub_def)
  have loop: "timeLabelLoop (timePoints ch) = None"
    using times by (simp add: timeLabelLoop_None)
  have "valueLabels ch = Inr (valueAxisLabels ts h (Fin a) (Fin b))"
    using onPaint_valueLabels [OF drawn] loop bounds by simp
  moreover have "\<forall>i. tickValue (Fin a) (Fin b) i
                = f64_add (Fin a) (f64_div (f64_mul (Fin (real i)) (Fin d)) (Fin 5))"
    by (simp add: tickValue_def sub)
  ultimately show ?thesis
    using valueAxisLabels_six [OF sub, of ts h] tickValue_not_NaN [OF sub] tickValue_0 [OF sub]
    by simp
qed

theorem value_axis_labels_witness:
  "onPaint ts0 100 100 selected2 store05 = Drawn chart05
   \<and> timePoints chart05 = [''2025-01-01 01:00:00'', ''2025-01-01 00:00:00'']
   \<and> CHR '' '' \<in> set ''2025-01-01 01:00:00'' \<and> CHR '' '' \<in> set ''2025-01-01 00:00:00''
   \<and> globalMinValue chart05 = Fin 0 \<and> globalMaxValue chart05 = Fin 5 \<and> (0::real) < 5
   \<and> f64_round (5 - 0) = Fin 5
   \<and> valueLabels chart05 =
         Inr [(toFixed ts0 1 (tickValue (Fin 0) (Fin 5) 0), Fin 10, Fin 95),
              (toFixed ts0 1 (tickValue (Fin 0) (Fin 5) 1), Fin 10, Fin 75),
              (toFixed ts0 1 (tickValue (Fin 0) (Fin 5) 2), Fin 10, Fin 55),
              (toFixed ts0 1 (tickValue (Fin 0) (Fin 5) 3), Fin 10, Fin 35),
              (toFixed ts0 1 (tickValue (Fin 0) (Fin 5) 4), Fin 10, Fin 15),
              (toFixed ts0 1 (tickValue (Fin 0) (Fin 5) 5), Fin 10, Fin (- 5))]
   \<and> tickValue (Fin 0) (Fin 5) 0 = f64_round 0"
proof -
  have tp: "timePoints chart05 = [''2025-01-01 01:00:00'', ''2025-01-01 00:00:00'']"
    and b: "globalMinValue chart05 = Fin 0" "globalMaxValue chart05 = Fin 5"
    by (simp_all add: chart05_def)
  have sp: "CHR '' '' \<in> set ''2025-01-01 01:00:00''" "CHR '' '' \<in> set ''2025-01-01 00:00:00''"
    by simp_all
  have times: "\<forall>tp\<in>set (timePoints chart05). CHR '' '' \<in> set tp"
    using sp by (simp add: tp)
  have lt: "(0::real) < 5" by simp
  have diff: "f64_round (5 - 0) = Fin 5"
    by (simp add: f64_round_numeral)
  note t = value_axis_labels [OF onPaint05 times b lt diff]
  from t [THEN conjunct1] have vl: "valueLabels chart05 =
         Inr [(toFixed ts0 1 (tickValue (Fin 0) (Fin 5) 0), Fin 10, Fin 95),
              (toFixed ts0 1 (tickValue (Fin 0) (Fin 5) 1), Fin 10, Fin 75),
              (toFixed ts0 1 (tickValue (Fin 0) (Fin 5) 2), Fin 10, Fin 55),
              (toFixed ts0 1 (tickValue (Fin 0) (Fin 5) 3), Fin 10, Fin 35),
              (toFixed ts0 1 (tickValue (Fin 0) (Fin 5) 4), Fin 10, Fin 15),
              (toFixed ts0 1 (tickValue (Fin 0) (Fin 5) 5), Fin 10, Fin (- 5))]"
    by simp
  from t have t0: "tickValue (Fin 0) (Fin 5) 0 = f64_round 0"
    by blast
  show ?thesis
    by (intro conjI onPaint05 tp sp b lt diff vl t0)
qed

lemma toFixed_two_decimals:
  "map (toFixed ts0 2) [Fin 0, Fin 1, Fin 2, Fin 3, Fin 4, Fin 5]
     = [''0.00'', ''1.00'', ''2.00'', ''3.00'', ''4.00'', ''5.00'']"
  by code_simp

lemma scan_extreme:
  "scanSensors store_extreme 0 [2] ((js_neg Number_MAX_VALUE, Number_MAX_VALUE), [])
     = ((Fin DBL_MAX, Fin (- DBL_MAX)), [''2025-01-01 01:00:00'', ''2025-01-01 00:00:00''])"
  using DBL_MAX_pos
  by (simp add: store_extreme_def series_extreme_def sensorData_at_def Number_MAX_VALUE_def isNaN_def)

lemma ticks_extreme:
  "tickValue (Fin (- DBL_MAX)) (Fin DBL_MAX) 0 = NaN"
  "tickValue (Fin (- DBL_MAX)) (Fin DBL_MAX) (Suc 0) = PInf"
  "tickValue (Fin (- DBL_MAX)) (Fin DBL_MAX) 2 = PInf"
  "tickValue (Fin (- DBL_MAX)) (Fin DBL_MAX) 3 = PInf"
  "tickValue (Fin (- DBL_MAX)) (Fin DBL_MAX) 4 = PInf"
  "tickValue (Fin (- DBL_MAX)) (Fin DBL_MAX) 5 = PInf"
proof -
  have "f64_round (DBL_MAX + DBL_MAX) = PInf"
    using f64_round_overflow by simp
  then have sub: "f64_sub (Fin DBL_MAX) (Fin (- DBL_MAX)) = PInf"
    by (simp add: f64_sub_def f64_def js_sub_def)
  show "tickValue (Fin (- DBL_MAX)) (Fin DBL_MAX) 0 = NaN"
    "tickValue (Fin (- DBL_MAX)) (Fin DBL_MAX) (Suc 0) = PInf"
    "tickValue (Fin (- DBL_MAX)) (Fin DBL_MAX) 2 = PInf"
    "tickValue (Fin (- DBL_MAX)) (Fin DBL_MAX) 3 = PInf"
    "tickValue (Fin (- DBL_MAX)) (Fin DBL_MAX) 4 = PInf"
    "tickValue (Fin (- DBL_MAX)) (Fin DBL_MAX) 5 = PInf"
    by (simp_all add: tickValue_def sub f64_add_def f64_mul_def f64_div_def f64_def inf_of_sign_def)
qed

lemma labels_extreme:
  "valueAxisLabels ts0 100 (Fin (- DBL_MAX)) (Fin DBL_MAX)
     = [(''Infinity'', Fin 10, Fin 75), (''Infinity'', Fin 10, Fin 55), (''Infinity'', Fin 10, Fin 35),
        (''Infinity'', Fin 10, Fin 15), (''Infinity'', Fin 10, Fin (- 5))]"
  by (simp add: valueAxisLabels_def upt_6 ticks_extreme isNaN_def js_sub_def toFixed_def)

lemma scan_dateonly:
  "scanSensors store_dateonly 0 [2] ((js_neg Number_MAX_VALUE, Number_MAX_VALUE), [])
     = ((Fin 5, Fin 0), [''2025-01-02'', ''2025-01-01''])"
  using DBL_MAX_big
  by (simp add: store_dateonly_def series_dateonly_def sensorData_at_def Number_MAX_VALUE_def isNaN_def)

text \<open>
  The claim as stated fails in three ways. For the range from 0 to 5 the labels have one
  decimal place, where two decimal places would give other texts. For the values
  \<^verbatim>\<open>Number.MAX_VALUE\<close> and \<^verbatim>\<open>-Number.MAX_VALUE\<close> the range is not degenerate, but its
  difference overflows: the tick of index 0 is not a number and is left out, and the five
  others read \<^verbatim>\<open>Infinity\<close>. For dates without a time part the loop of the time labels throws
  before any label of the value axis is drawn.
\<close>

theorem value_axis_labels_counterexample:
  "map_option valueLabels (drawn (onPaint ts0 100 100 selected2 store05))
     = Some (Inr [(''0.0'', Fin 10, Fin 95), (''1.0'', Fin 10, Fin 75), (''2.0'', Fin 10, Fin 55),
                  (''3.0'', Fin 10, Fin 35), (''4.0'', Fin 10, Fin 15), (''5.0'', Fin 10, Fin (- 5))])
   \<and> map (toFixed ts0 2) [Fin 0, Fin 1, Fin 2, Fin 3, Fin 4, Fin 5]
       = [''0.00'', ''1.00'', ''2.00'', ''3.00'', ''4.00'', ''5.00'']
   \<and> map_option (\<lambda>ch. (globalMinValue ch, globalMaxValue ch))
         (drawn (onPaint ts0 100 100 selected2 store_extreme)) = Some (Fin (- DBL_MAX), Fin DBL_MAX)
   \<and> - DBL_MAX < DBL_MAX
   \<and> map_option valueLabels (drawn (onPaint ts0 100 100 selected2 store_extreme))
       = Some (Inr [(''Infinity'', Fin 10, Fin 75), (''Infinity'', Fin 10, Fin 55),
                    (''Infinity'', Fin 10, Fin 35), (''Infinity'', Fin 10, Fin 15),
                    (''Infinity'', Fin 10, Fin (- 5))])
   \<and> map_option valueLabels (drawn (onPaint ts0 100 100 selected2 store_dateonly))
       = Some (Inl TypeError)"
proof -
  have one: "map_option valueLabels (drawn (onPaint ts0 100 100 selected2 store05))
     = Some (Inr [(''0.0'', Fin 10, Fin 95), (''1.0'', Fin 10, Fin 75), (''2.0'', Fin 10, Fin 55),
                  (''3.0'', Fin 10, Fin 35), (''4.0'', Fin 10, Fin 15), (''5.0'', Fin 10, Fin (- 5))])"
    by (simp add: onPaint05 drawn_def chart05_def)
  have ne: "store_extreme \<noteq> Map.empty" "store_dateonly \<noteq> Map.empty"
    by (simp_all add: store_extreme_def store_dateonly_def)
  have tl: "timeLabelLoop [''2025-01-01 01:00:00'', ''2025-01-01 00:00:00''] = None"
    by (simp add: timeLabelLoop_None)
  have neq: "DBL_MAX \<noteq> - DBL_MAX" and lt: "- DBL_MAX < DBL_MAX"
    using DBL_MAX_pos by simp_all
  have ext: "onPaint ts0 100 100 selected2 store_extreme =
      Drawn \<lparr>timePoints = [''2025-01-01 01:00:00'', ''2025-01-01 00:00:00''],
             globalMinValue = Fin (- DBL_MAX), globalMaxValue = Fin DBL_MAX,
             strokes = plotAll 100 100 (Fin (- DBL_MAX)) (Fin DBL_MAX) store_extreme [2],
             valueLabels = Inr (valueAxisLabels ts0 100 (Fin (- DBL_MAX)) (Fin DBL_MAX))\<rparr>"
    using ne neq
    by (simp add: onPaint_def selected2_keys scan_extreme strict_eq_def tl Let_def
          del: scanSensors.simps)
  have tl2: "timeLabelLoop [''2025-01-02'', ''2025-01-01''] = Some TypeError"
    by simp
  have dateonly: "onPaint ts0 100 100 selected2 store_dateonly =
      Drawn \<lparr>timePoints = [''2025-01-02'', ''2025-01-01''],
             globalMinValue = Fin 0, globalMaxValue = Fin 5,
             strokes = plotAll 100 100 (Fin 0) (Fin 5) store_dateonly [2],
             valueLabels = Inl TypeError\<rparr>"
    using ne
    by (simp add: onPaint_def selected2_keys scan_dateonly strict_eq_def tl2 Let_def
          del: scanSensors.simps timeLabelLoop.simps)
  show ?thesis
    using one toFixed_two_decimals lt
    by (simp add: ext dateonly drawn_def labels_extreme)
qed

subsection \<open>The statistics texts\<close>

lemma validValues_Cons:
  "validValues (p # ps) = (if valid p then the (val p) # validValues ps else validValues ps)"
  by (simp add: validValues_def)

lemma invalid_cases: "\<not> valid p \<Longrightarrow> val p = None \<or> val p = Some NaN"
  by (auto simp: valid_def split: option.splits)

lemma valid_cases: "valid p \<Longrightarrow> \<exists>v. val p = Some v \<and> v \<noteq> NaN"
  by (auto simp: valid_def split: option.splits)

lemma sumLoop_valid:
  "sumLoop data (s, c) = (foldl f64_add s (validValues data), c + length (validValues data))"
proof (induction data arbitrary: s c)
  case Nil
  then show ?case by (simp add: validValues_def)
next
  case (Cons p ps)
  show ?case
  proof (cases "valid p")
    case True
    with valid_cases obtain v where "val p = Some v" "v \<noteq> NaN" by blast
    with True show ?thesis
      by (simp add: Cons.IH validValues_Cons isNaN_def)
  next
    case False
    with invalid_cases [OF False] show ?thesis
      by (auto simp: Cons.IH validValues_Cons isNaN_def)
  qed
qed

lemma minLoop_valid: "minLoop data m = foldl Math_min m (validValues data)"
proof (induction data arbitrary: m)
  case Nil
  then show ?case by (simp add: validValues_def)
next
  case (Cons p ps)
  show ?case
  proof (cases "valid p")
    case True
    with valid_cases obtain v where "val p = Some v" "v \<noteq> NaN" by blast
    with True show ?thesis
      by (simp add: Cons.IH validValues_Cons isNaN_def)
  next
    case False
    with invalid_cases [OF False] show ?thesis
      by (auto simp: Cons.IH validValues_Cons isNaN_def)
  qed
qed

lemma maxLoop_valid: "maxLoop data m = foldl Math_max m (validValues data)"
proof (induction data arbitrary: m)
  case Nil
  then show ?case by (simp add: validValues_def)
next
  case (Cons p ps)
  show ?case
  proof (cases "valid p")
    case True
    with valid_cases obtain v where "val p = Some v" "v \<noteq> NaN" by blast
    with True show ?thesis
      by (simp add: Cons.IH validValues_Cons isNaN_def)
  next
    case False
    with invalid_cases [OF False] show ?thesis
      by (auto simp: Cons.IH validValues_Cons isNaN_def)
  qed
qed

lemma foldl_Math_min_Fin: "foldl Math_min (Fin m) (map Fin rs) = Fin (Min (insert m (set rs)))"
proof (induction rs arbitrary: m)
  case Nil
  then show ?case by simp
next
  case (Cons r rs)
  have "Min (insert (min m r) (set rs)) = Min (insert m (insert r (set rs)))"
    by (cases "rs = []") (simp_all add: min.assoc)
  with Cons show ?case by simp
qed

lemma foldl_Math_max_Fin: "foldl Math_max (Fin m) (map Fin rs) = Fin (Max (insert m (set rs)))"
proof (induction rs arbitrary: m)
  case Nil
  then show ?case by simp
next
  case (Cons r rs)
  have "Max (insert (max m r) (set rs)) = Max (insert m (insert r (set rs)))"
    by (cases "rs = []") (simp_all add: max.assoc)
  with Cons show ?case by simp
qed

lemma Min_with_start:
  fixes c :: real
  shows "Min (insert c (set rs)) = (if \<forall>r\<in>set rs. c \<le> r then c else Min (set rs))"
proof (cases "rs = []")
  case True
  then show ?thesis by simp
next
  case False
  then have m: "Min (insert c (set rs)) = min c (Min (set rs))"
    by simp
  show ?thesis
  proof (cases "\<forall>r\<in>set rs. c \<le> r")
    case True
    with False have "c \<le> Min (set rs)" by simp
    with m True show ?thesis by simp
  next
    case nb: False
    then obtain r where "r \<in> set rs" "r < c" by auto
    then have "Min (set rs) < c"
      using False by (meson List.finite_set Min_le le_less_trans)
    with m nb show ?thesis by simp
  qed
qed

lemma Max_with_start:
  fixes c :: real
  shows "Max (insert c (set rs)) = (if \<forall>r\<in>set rs. r \<le> c then c else Max (set rs))"
proof (cases "rs = []")
  case True
  then show ?thesis by simp
next
  case False
  then have m: "Max (insert c (set rs)) = max c (Max (set rs))"
    by simp
  show ?thesis
  proof (cases "\<forall>r\<in>set rs. r \<le> c")
    case True
    with False have "Max (set rs) \<le> c" by simp
    with m True show ?thesis by simp
  next
    case nb: False
    then obtain r where "r \<in> set rs" "c < r" by auto
    then have "c < Max (set rs)"
      using False by (meson List.finite_set Max_ge less_le_trans)
    with m nb show ?thesis by simp
  qed
qed

lemma strict_eq_Fin: "strict_eq x (Fin c) \<longleftrightarrow> x = Fin c"
  by (auto simp: strict_eq_def)

lemma averageText_nonempty:
  assumes "0 \<le> ci" "nat ci < length sensors"
    and "sensorData_at sd (sensorId (sensors ! nat ci)) = Some data" and "data \<noteq> []"
  shows "averageText ts sensors sd ci =
           Inr (Srednia @ '' '' @ wartosc @ '': ''
                @ (if validValues data = [] then ''Brak''
                   else toFixed ts 2 (f64_div (foldl f64_add (Fin 0) (validValues data))
                                              (Fin (real (length (validValues data))))))
                @ ug_m3)"
  using assms
  by (cases data) (simp_all add: averageText_def selectedData_def sumLoop_valid del: sumLoop.simps)

lemma minimumText_nonempty:
  assumes "0 \<le> ci" "nat ci < length sensors"
    and "sensorData_at sd (sensorId (sensors ! nat ci)) = Some data" and "data \<noteq> []"
  shows "minimumText ts sensors sd ci =
           Inr (''Minimalna '' @ wartosc @ '': ''
                @ (if foldl Math_min Number_MAX_VALUE (validValues data) = Number_MAX_VALUE then ''Brak''
                   else toFixed ts 2 (foldl Math_min Number_MAX_VALUE (validValues data)))
                @ ug_m3)"
  using assms
  by (cases data)
     (simp_all add: minimumText_def selectedData_def Let_def minLoop_valid Number_MAX_VALUE_def
        strict_eq_Fin del: minLoop.simps)

lemma maximumText_nonempty:
  assumes "0 \<le> ci" "nat ci < length sensors"
    and "sensorData_at sd (sensorId (sensors ! nat ci)) = Some data" and "data \<noteq> []"
  shows "maximumText ts sensors sd ci =
           Inr (''Maksymalna '' @ wartosc @ '': ''
                @ (if foldl Math_max (js_neg Number_MAX_VALUE) (validValues data) = js_neg Number_MAX_VALUE
                   then ''Brak''
                   else toFixed ts 2 (foldl Math_max (js_neg Number_MAX_VALUE) (validValues data)))
                @ ug_m3)"
  using assms
  by (cases data)
     (simp_all add: maximumText_def selectedData_def Let_def maxLoop_valid Number_MAX_VALUE_def
        strict_eq_Fin del: maxLoop.simps)

lemma latestValueText_nonempty:
  assumes "0 \<le> ci" "nat ci < length sensors"
    and "sensorData_at sd (sensorId (sensors ! nat ci)) = Some data" and "data \<noteq> []"
  shows "latestValueText ts sensors sd ci =
           Inr (''Aktualny odczyt: ''
                @ (case val (hd data) of Some v \<Rightarrow> toFixed ts 2 v | None \<Rightarrow> ''Brak'')
                @ ug_m3 @ '' ('' @ date (hd data) @ '')'')"
  using assms
  by (cases data) (simp_all add: latestValueText_def selectedData_def)

lemma summary_empty:
  assumes "0 \<le> ci" "nat ci < length sensors"
    and "sensorData_at sd (sensorId (sensors ! nat ci)) = Some []"
  shows "averageText ts sensors sd ci = Inr (Srednia @ '' '' @ wartosc @ '': Brak danych'')"
    and "minimumText ts sensors sd ci = Inr (''Minimalna '' @ wartosc @ '': Brak danych'')"
    and "maximumText ts sensors sd ci = Inr (''Maksymalna '' @ wartosc @ '': Brak danych'')"
    and "latestValueText ts sensors sd ci = Inr ''Brak danych''"
  using assms
  by (simp_all add: averageText_def minimumText_def maximumText_def latestValueText_def selectedData_def)

lemma minimum_of_finite:
  "foldl Math_min Number_MAX_VALUE (map Fin rs) =
     (if \<forall>r\<in>set rs. DBL_MAX \<le> r then Number_MAX_VALUE else Fin (Min (set rs)))"
  by (simp add: Number_MAX_VALUE_def foldl_Math_min_Fin Min_with_start)

lemma maximum_of_finite:
  "foldl Math_max (js_neg Number_MAX_VALUE) (map Fin rs) =
     (if \<forall>r\<in>set rs. r \<le> - DBL_MAX then js_neg Number_MAX_VALUE else Fin (Max (set rs)))"
  by (simp add: Number_MAX_VALUE_def foldl_Math_max_Fin Max_with_start)

lemma summary_nonempty:
  assumes idx: "0 \<le> currentIndex" "nat currentIndex < length sensors"
    and entry: "sensorData_at sensorData (sensorId (sensors ! nat currentIndex)) = Some data"
    and nonempty: "data \<noteq> []"
  shows "averageText ts sensors sensorData currentIndex
           = Inr (Srednia @ '' '' @ wartosc @ '': ''
                  @ (if validValues data = [] then ''Brak''
                     else toFixed ts 2 (f64_div (foldl f64_add (Fin 0) (validValues data))
                                                (Fin (real (length (validValues data))))))
                  @ ug_m3)"
    and "validValues data = map Fin rs \<Longrightarrow>
           minimumText ts sensors sensorData currentIndex
             = Inr (''Minimalna '' @ wartosc @ '': ''
                    @ (if \<forall>r\<in>set rs. DBL_MAX \<le> r then ''Brak'' else toFixed ts 2 (Fin (Min (set rs))))
                    @ ug_m3)"
    and "validValues data = map Fin rs \<Longrightarrow>
           maximumText ts sensors sensorData currentIndex
             = Inr (''Maksymalna '' @ wartosc @ '': ''
                    @ (if \<forall>r\<in>set rs. r \<le> - DBL_MAX then ''Brak'' else toFixed ts 2 (Fin (Max (set rs))))
                    @ ug_m3)"
proof -
  show "averageText ts sensors sensorData currentIndex
           = Inr (Srednia @ '' '' @ wartosc @ '': ''
                  @ (if validValues data = [] then ''Brak''
                     else toFixed ts 2 (f64_div (foldl f64_add (Fin 0) (validValues data))
                                                (Fin (real (length (validValues data))))))
                  @ ug_m3)"
    by (rule averageText_nonempty [OF idx entry nonempty])
next
  assume v: "validValues data = map Fin rs"
  have ne: "Fin (Min (set rs)) \<noteq> Number_MAX_VALUE" if "\<not> (\<forall>r\<in>set rs. DBL_MAX \<le> r)"
  proof -
    from that obtain r where r: "r \<in> set rs" "r < DBL_MAX" by auto
    then have "Min (set rs) \<le> r" by simp
    with r have "Min (set rs) < DBL_MAX" by linarith
    then show ?thesis by (simp add: Number_MAX_VALUE_def)
  qed
  show "minimumText ts sensors sensorData currentIndex
             = Inr (''Minimalna '' @ wartosc @ '': ''
                    @ (if \<forall>r\<in>set rs. DBL_MAX \<le> r then ''Brak'' else toFixed ts 2 (Fin (Min (set rs))))
                    @ ug_m3)"
    using ne
    by (simp add: minimumText_nonempty [OF idx entry nonempty] v minimum_of_finite)
next
  assume v: "validValues data = map Fin rs"
  have ne: "Fin (Max (set rs)) \<noteq> js_neg Number_MAX_VALUE" if "\<not> (\<forall>r\<in>set rs. r \<le> - DBL_MAX)"
  proof -
    from that obtain r where r: "r \<in> set rs" "- DBL_MAX < r" by auto
    then have "r \<le> Max (set rs)" by simp
    with r have "- DBL_MAX < Max (set rs)" by linarith
    then show ?thesis by (simp add: Number_MAX_VALUE_def)
  qed
  show "maximumText ts sensors sensorData currentIndex
             = Inr (''Maksymalna '' @ wartosc @ '': ''
                    @ (if \<forall>r\<in>set rs. r \<le> - DBL_MAX then ''Brak'' else toFixed ts 2 (Fin (Max (set rs))))
                    @ ug_m3)"
    using ne
    by (simp add: maximumText_nonempty [OF idx entry nonempty] v maximum_of_finite)
qed

text \<open>
  Claim C6, as amended. For the series stored for the current sensor: an empty series shows
  \<^verbatim>\<open>Brak danych\<close> in all four texts. Otherwise the mean shown is the binary64 sum of the
  values of the valid samples, added in the order of the series, divided by their number,
  and the minimum and the maximum shown are those of the values of the valid samples, each
  formatted to two decimals; when the series has no valid sample, each of the three texts
  shows the word \<^verbatim>\<open>Brak\<close> in place of a number. The minimum also shows \<^verbatim>\<open>Brak\<close> when no valid
  value is below \<^verbatim>\<open>Number.MAX_VALUE\<close>, and the maximum when no valid value is above
  \<^verbatim>\<open>-Number.MAX_VALUE\<close>: the starting values of the two loops are taken for the absence of
  data. The latest reading is the sample at index 0, formatted to two decimals when it has a
  value and \<^verbatim>\<open>Brak\<close> when its value is \<^verbatim>\<open>null\<close>. The scenario of the claim is the first
  part of the witness.
\<close>

theorem summary_over_valid_samples:
  assumes idx: "0 \<le> currentIndex" "nat currentIndex < length sensors"
    and entry: "sensorData_at sensorData (sensorId (sensors ! nat currentIndex)) = Some data"
  shows "(data = [] \<longrightarrow>
            averageText ts sensors sensorData currentIndex
              = Inr (Srednia @ '' '' @ wartosc @ '': Brak danych'')
          \<and> minimumText ts sensors sensorData currentIndex
              = Inr (''Minimalna '' @ wartosc @ '': Brak danych'')
          \<and> maximumText ts sensors sensorData currentIndex
              = Inr (''Maksymalna '' @ wartosc @ '': Brak danych'')
          \<and> latestValueText ts sensors sensorData currentIndex = Inr ''Brak danych'')
       \<and> (data \<noteq> [] \<and> validValues data = [] \<longrightarrow>
            averageText ts sensors sensorData currentIndex
              = Inr (Srednia @ '' '' @ wartosc @ '': '' @ ''Brak'' @ ug_m3)
          \<and> minimumText ts sensors sensorData currentIndex
              = Inr (''Minimalna '' @ wartosc @ '': '' @ ''Brak'' @ ug_m3)
          \<and> maximumText ts sensors sensorData currentIndex
              = Inr (''Maksymalna '' @ wartosc @ '': '' @ ''Brak'' @ ug_m3))
       \<and> (data \<noteq> [] \<and> validValues data \<noteq> [] \<longrightarrow>
            averageText ts sensors sensorData currentIndex
              = Inr (Srednia @ '' '' @ wartosc @ '': ''
                     @ toFixed ts 2 (f64_div (foldl f64_add (Fin 0) (validValues data))
                                             (Fin (real (length (validValues data)))))
                     @ ug_m3))
       \<and> (\<forall>rs. data \<noteq> [] \<and> validValues data = map Fin rs \<longrightarrow>
            minimumText ts sensors sensorData currentIndex
              = Inr (''Minimalna '' @ wartosc @ '': ''
                     @ (if \<forall>r\<in>set rs. DBL_MAX \<le> r then ''Brak''
                        else toFixed ts 2 (Fin (Min (set rs))))
                     @ ug_m3)
          \<and> maximumText ts sensors sensorData currentIndex
              = Inr (''Maksymalna '' @ wartosc @ '': ''
                     @ (if \<forall>r\<in>set rs. r \<le> - DBL_MAX then ''Brak''
                        else toFixed ts 2 (Fin (Max (set rs))))
                     @ ug_m3))
       \<and> (data \<noteq> [] \<longrightarrow>
            minimumText ts sensors sensorData currentIndex
              = Inr (''Minimalna '' @ wartosc @ '': ''
                     @ (if foldl Math_min Number_MAX_VALUE (validValues data) = Number_MAX_VALUE
                        then ''Brak''
                        else toFixed ts 2 (foldl Math_min Number_MAX_VALUE (validValues data)))
                     @ ug_m3)
          \<and> maximumText ts sensors sensorData currentIndex
              = Inr (''Maksymalna '' @ wartosc @ '': ''
                     @ (if foldl Math_max (js_neg Number_MAX_VALUE) (validValues data)
                           = js_neg Number_MAX_VALUE
                        then ''Brak''
                        else toFixed ts 2 (foldl Math_max (js_neg Number_MAX_VALUE) (validValues data)))
                     @ ug_m3))
       \<and> (data \<noteq> [] \<longrightarrow>
            latestValueText ts sensors sensorData currentIndex
              = Inr (''Aktualny odczyt: ''
                     @ (case val (hd data) of Some v \<Rightarrow> toFixed ts 2 v | None \<Rightarrow> ''Brak'')
                     @ ug_m3 @ '' ('' @ date (hd data) @ '')''))"
proof (cases "data = []")
  case True
  with summary_empty [OF idx, of sensorData ts] entry show ?thesis
    by (simp add: validValues_def)
next
  case False
  note a = averageText_nonempty [OF idx entry False, of ts]
  note mn = minimumText_nonempty [OF idx entry False, of ts]
  note mx = maximumText_nonempty [OF idx entry False, of ts]
  note l = latestValueText_nonempty [OF idx entry False, of ts]
  note f = summary_nonempty(2,3) [OF idx entry False, of _ ts]
  have none: "validValues data = [] \<Longrightarrow>
      minimumText ts sensors sensorData currentIndex
        = Inr (''Minimalna '' @ wartosc @ '': '' @ ''Brak'' @ ug_m3)
    \<and> maximumText ts sensors sensorData currentIndex
        = Inr (''Maksymalna '' @ wartosc @ '': '' @ ''Brak'' @ ug_m3)"
    by (simp add: mn mx)
  have c2: "data \<noteq> [] \<and> validValues data = [] \<longrightarrow>
            averageText ts sensors sensorData currentIndex
              = Inr (Srednia @ '' '' @ wartosc @ '': '' @ ''Brak'' @ ug_m3)
          \<and> minimumText ts sensors sensorData currentIndex
              = Inr (''Minimalna '' @ wartosc @ '': '' @ ''Brak'' @ ug_m3)
          \<and> maximumText ts sensors sensorData currentIndex
              = Inr (''Maksymalna '' @ wartosc @ '': '' @ ''Brak'' @ ug_m3)"
    using none by (simp add: a)
  have c3: "data \<noteq> [] \<and> validValues data \<noteq> [] \<longrightarrow>
            averageText ts sensors sensorData currentIndex
              = Inr (Srednia @ '' '' @ wartosc @ '': ''
                     @ toFixed ts 2 (f64_div (foldl f64_add (Fin 0) (validValues data))
                                             (Fin (real (length (validValues data)))))
                     @ ug_m3)"
    by (simp add: a)
  have c4: "\<forall>rs. data \<noteq> [] \<and> validValues data = map Fin rs \<longrightarrow>
            minimumText ts sensors sensorData currentIndex
              = Inr (''Minimalna '' @ wartosc @ '': ''
                     @ (if \<forall>r\<in>set rs. DBL_MAX \<le> r then ''Brak''
                        else toFixed ts 2 (Fin (Min (set rs))))
                     @ ug_m3)
          \<and> maximumText ts sensors sensorData currentIndex
              = Inr (''Maksymalna '' @ wartosc @ '': ''
                     @ (if \<forall>r\<in>set rs. r \<le> - DBL_MAX then ''Brak''
                        else toFixed ts 2 (Fin (Max (set rs))))
                     @ ug_m3)"
    using f by blast
  from False c2 c3 c4 mn mx l show ?thesis
    by blast
qed

lemma toFixed_examples:
  "toFixed ts0 2 (Fin 10) = ''10.00''" "toFixed ts0 2 (Fin 20) = ''20.00''"
  "toFixed ts0 2 (Fin 15) = ''15.00''"
  by code_simp+

lemma store3_at:
  "sensorData_at store3 3 = Some series3" "sensorData_at store3_null 3 = Some null_series"
  "sensorData_at store3_empty 3 = Some []" "sensorData_at store3_max 3 = Some series_max"
  by (simp_all add: store3_def store3_null_def store3_empty_def store3_max_def sensorData_at_def)

lemma mean_10_20:
  "f64_div (foldl f64_add (Fin 0) (map Fin [10, 20])) (Fin (real (length (map Fin [10, 20::real]))))
     = Fin 15"
  by (simp add: f64_eval)

theorem summary_witness:
  "(0::int) \<le> 0 \<and> nat 0 < length sensors3
   \<and> sensorData_at store3 (sensorId (sensors3 ! nat 0)) = Some series3 \<and> series3 \<noteq> []
   \<and> validValues series3 = map Fin [10, 20]
   \<and> minimumText ts0 sensors3 store3 0 = Inr (''Minimalna '' @ wartosc @ '': 10.00'' @ ug_m3)
   \<and> maximumText ts0 sensors3 store3 0 = Inr (''Maksymalna '' @ wartosc @ '': 20.00'' @ ug_m3)
   \<and> averageText ts0 sensors3 store3 0 = Inr (Srednia @ '' '' @ wartosc @ '': 15.00'' @ ug_m3)
   \<and> latestValueText ts0 sensors3 store3 0
       = Inr (''Aktualny odczyt: Brak'' @ ug_m3 @ '' (2025-01-01 02:00:00)'')
   \<and> sensorData_at store3_null (sensorId (sensors3 ! nat 0)) = Some null_series
   \<and> null_series \<noteq> [] \<and> validValues null_series = []
   \<and> minimumText ts0 sensors3 store3_null 0 = Inr (''Minimalna '' @ wartosc @ '': Brak'' @ ug_m3)
   \<and> maximumText ts0 sensors3 store3_null 0 = Inr (''Maksymalna '' @ wartosc @ '': Brak'' @ ug_m3)
   \<and> averageText ts0 sensors3 store3_null 0 = Inr (Srednia @ '' '' @ wartosc @ '': Brak'' @ ug_m3)
   \<and> sensorData_at store3_empty (sensorId (sensors3 ! nat 0)) = Some []
   \<and> minimumText ts0 sensors3 store3_empty 0 = Inr (''Minimalna '' @ wartosc @ '': Brak danych'')
   \<and> latestValueText ts0 sensors3 store3_empty 0 = Inr ''Brak danych''"
proof -
  have i1: "(0::int) \<le> 0" and i2: "nat 0 < length sensors3"
    by (simp_all add: sensors3_def)
  have e: "sensorData_at store3 (sensorId (sensors3 ! nat 0)) = Some series3"
    and e0: "sensorData_at store3_null (sensorId (sensors3 ! nat 0)) = Some null_series"
    and e1: "sensorData_at store3_empty (sensorId (sensors3 ! nat 0)) = Some []"
    by (simp_all add: sensors3_def store3_at)
  have n: "series3 \<noteq> []" and n0: "null_series \<noteq> []"
    by (simp_all add: series3_def null_series_def)
  have v: "validValues series3 = map Fin [10, 20]" and v0: "validValues null_series = []"
    by (simp_all add: validValues_def series3_def null_series_def valid_def)
  have vn: "validValues series3 \<noteq> []"
    unfolding v by simp
  have big: "\<not> (\<forall>r\<in>set [10, 20::real]. DBL_MAX \<le> r)" "\<not> (\<forall>r\<in>set [10, 20::real]. r \<le> - DBL_MAX)"
    using DBL_MAX_big by simp_all
  have vals: "Min (set [10, 20::real]) = 10" "Max (set [10, 20::real]) = 20"
    by simp_all
  have l: "(case val (hd series3) of Some v \<Rightarrow> toFixed ts0 2 v | None \<Rightarrow> ''Brak'') = ''Brak''"
    "date (hd series3) = ''2025-01-01 02:00:00''"
    by (simp_all add: series3_def)
  note t = summary_over_valid_samples [OF i1 i2 e, of ts0]
  note t0 = summary_over_valid_samples [OF i1 i2 e0, of ts0]
  note t1 = summary_over_valid_samples [OF i1 i2 e1, of ts0]
  from t n vn have
    "averageText ts0 sensors3 store3 0
       = Inr (Srednia @ '' '' @ wartosc @ '': ''
              @ toFixed ts0 2 (f64_div (foldl f64_add (Fin 0) (validValues series3))
                                       (Fin (real (length (validValues series3)))))
              @ ug_m3)"
    by blast
  then have avg:
    "averageText ts0 sensors3 store3 0 = Inr (Srednia @ '' '' @ wartosc @ '': 15.00'' @ ug_m3)"
    unfolding v mean_10_20 by (simp add: toFixed_examples)
  from t n v have
    "minimumText ts0 sensors3 store3 0
       = Inr (''Minimalna '' @ wartosc @ '': ''
              @ (if \<forall>r\<in>set [10, 20::real]. DBL_MAX \<le> r then ''Brak''
                 else toFixed ts0 2 (Fin (Min (set [10, 20]))))
              @ ug_m3)"
    "maximumText ts0 sensors3 store3 0
       = Inr (''Maksymalna '' @ wartosc @ '': ''
              @ (if \<forall>r\<in>set [10, 20::real]. r \<le> - DBL_MAX then ''Brak''
                 else toFixed ts0 2 (Fin (Max (set [10, 20]))))
              @ ug_m3)"
    by blast+
  then have stats:
    "minimumText ts0 sensors3 store3 0 = Inr (''Minimalna '' @ wartosc @ '': 10.00'' @ ug_m3)"
    "maximumText ts0 sensors3 store3 0 = Inr (''Maksymalna '' @ wartosc @ '': 20.00'' @ ug_m3)"
    unfolding if_not_P [OF big(1)] if_not_P [OF big(2)] vals by (simp_all add: toFixed_examples)
  from t n have "latestValueText ts0 sensors3 store3 0
      = Inr (''Aktualny odczyt: ''
             @ (case val (hd series3) of Some v \<Rightarrow> toFixed ts0 2 v | None \<Rightarrow> ''Brak'')
             @ ug_m3 @ '' ('' @ date (hd series3) @ '')'')"
    by blast
  then have latest: "latestValueText ts0 sensors3 store3 0
       = Inr (''Aktualny odczyt: Brak'' @ ug_m3 @ '' (2025-01-01 02:00:00)'')"
    unfolding l by simp
  from t0 n0 v0 have none:
    "averageText ts0 sensors3 store3_null 0 = Inr (Srednia @ '' '' @ wartosc @ '': '' @ ''Brak'' @ ug_m3)"
    "minimumText ts0 sensors3 store3_null 0 = Inr (''Minimalna '' @ wartosc @ '': '' @ ''Brak'' @ ug_m3)"
    "maximumText ts0 sensors3 store3_null 0 = Inr (''Maksymalna '' @ wartosc @ '': '' @ ''Brak'' @ ug_m3)"
    by blast+
  from t1 have empty:
    "minimumText ts0 sensors3 store3_empty 0 = Inr (''Minimalna '' @ wartosc @ '': Brak danych'')"
    "latestValueText ts0 sensors3 store3_empty 0 = Inr ''Brak danych''"
    by blast+
  show ?thesis
    by (intro conjI i1 i2 e n v stats avg latest e0 n0 v0 e1 empty)
       (simp_all add: none)
qed

text \<open>
  The claim as stated fails for a series whose only sample has the value
  \<^verbatim>\<open>Number.MAX_VALUE\<close>: the sample is valid, and the minimum text shows \<^verbatim>\<open>Brak\<close>.
\<close>

theorem lone_maximum_counterexample:
  "sensorData_at store3_max (sensorId (sensors3 ! nat 0)) = Some series_max
   \<and> map val series_max = [Some Number_MAX_VALUE]
   \<and> validValues series_max = [Number_MAX_VALUE]
   \<and> minimumText ts0 sensors3 store3_max 0 = Inr (''Minimalna '' @ wartosc @ '': Brak'' @ ug_m3)"
proof -
  have i1: "(0::int) \<le> 0" and i2: "nat 0 < length sensors3"
    by (simp_all add: sensors3_def)
  have e: "sensorData_at store3_max (sensorId (sensors3 ! nat 0)) = Some series_max"
    by (simp add: sensors3_def store3_at)
  have n: "series_max \<noteq> []"
    by (simp add: series_max_def)
  have v: "validValues series_max = [Number_MAX_VALUE]"
    by (simp add: validValues_def series_max_def valid_def Number_MAX_VALUE_def)
  have m: "map val series_max = [Some Number_MAX_VALUE]"
    by (simp add: series_max_def Number_MAX_VALUE_def)
  have f: "foldl Math_min Number_MAX_VALUE [Number_MAX_VALUE] = Number_MAX_VALUE"
    by (simp add: Number_MAX_VALUE_def)
  have "minimumText ts0 sensors3 store3_max 0 = Inr (''Minimalna '' @ wartosc @ '': Brak'' @ ug_m3)"
    unfolding minimumText_nonempty [OF i1 i2 e n] v f by simp
  with e m v show ?thesis by simp
qed

end
